theory Spec2Isabelle
  imports Complex_Main
begin

section \<open>JavaScript string and number primitives used by the importer\<close>

text \<open>
  Strings are lists of code units. The model covers the code units below 256, so the
  white space of \<^verbatim>\<open>String.prototype.trim\<close>, \<^verbatim>\<open>parseInt\<close>, \<^verbatim>\<open>parseFloat\<close> and the
  regular expression class \<^verbatim>\<open>\s\<close> is TAB, LF, VT, FF, CR, SPACE and NBSP.
\<close>

definition isWhiteSpace :: "char \<Rightarrow> bool" where
  "isWhiteSpace c \<longleftrightarrow>
     c \<in> set [CHR 0x09, CHR 0x0A, CHR 0x0B, CHR 0x0C, CHR 0x0D, CHR 0x20, CHR 0xA0]"

definition isLineTerminator :: "char \<Rightarrow> bool" where
  "isLineTerminator c \<longleftrightarrow> c \<in> set [CHR 0x0A, CHR 0x0D]"

definition isDigit :: "char \<Rightarrow> bool" where
  "isDigit c \<longleftrightarrow> c \<in> set ''0123456789''"

definition isHexDigit :: "char \<Rightarrow> bool" where
  "isHexDigit c \<longleftrightarrow> c \<in> set ''0123456789abcdefABCDEF''"

definition trim :: "string \<Rightarrow> string" where
  "trim s = rev (dropWhile isWhiteSpace (rev (dropWhile isWhiteSpace s)))"

text \<open>\<^verbatim>\<open>s.split(sep)\<close> for a one-character separator: never the empty list.\<close>

fun split :: "char \<Rightarrow> string \<Rightarrow> string list" where
  "split sep [] = [[]]"
| "split sep (c # cs) =
     (if c = sep then [] # split sep cs
      else (case split sep cs of p # ps \<Rightarrow> (c # p) # ps | [] \<Rightarrow> [[c]]))"

text \<open>\<^verbatim>\<open>s.replace(a, b)\<close> with a string pattern replaces the first occurrence only.\<close>

fun replaceFirst :: "char \<Rightarrow> char \<Rightarrow> string \<Rightarrow> string" where
  "replaceFirst a b [] = []"
| "replaceFirst a b (c # cs) = (if c = a then b # cs else c # replaceFirst a b cs)"

definition padStart :: "nat \<Rightarrow> char \<Rightarrow> string \<Rightarrow> string" where
  "padStart n c s = replicate (n - length s) c @ s"

definition startsWith :: "string \<Rightarrow> string \<Rightarrow> bool" where
  "startsWith s p \<longleftrightarrow> take (length p) s = p"

definition digitValue :: "char \<Rightarrow> int" where
  "digitValue c =
     (if isDigit c then of_char c - 48
      else if c \<in> set ''abcdef'' then of_char c - 87
      else of_char c - 55)"

definition mathValue :: "int \<Rightarrow> string \<Rightarrow> int" where
  "mathValue radix ds = foldl (\<lambda>n c. radix * n + digitValue c) 0 ds"

text \<open>
  A JavaScript Number is the double nearest to a mathematical value. The model keeps the
  mathematical value itself: an \<^typ>\<open>int\<close> for \<^verbatim>\<open>parseInt\<close> and a \<^typ>\<open>rat\<close> for
  \<^verbatim>\<open>parseFloat\<close>, with \<^const>\<open>None\<close> for NaN. Whether the result is NaN, and every
  comparison with the integers 1, 12 and 31, is the same before and after rounding; an
  integer below \<open>2 ^ 53\<close> is its own double.
\<close>

definition stripSign :: "string \<Rightarrow> bool \<times> string" where
  "stripSign s =
     (case s of
        c # r \<Rightarrow> if c = CHR ''-'' then (True, r) else if c = CHR ''+'' then (False, r) else (False, s)
      | [] \<Rightarrow> (False, s))"

text \<open>
  \<^verbatim>\<open>parseInt(s)\<close> with no radix: leading white space is skipped, a sign is read, a
  prefix \<^verbatim>\<open>0x\<close> or \<^verbatim>\<open>0X\<close> selects radix 16, and the longest run of digits of the radix
  is the value; NaN when that run is empty. What follows the run is ignored.
\<close>

definition parseInt :: "string \<Rightarrow> int option" where
  "parseInt s =
     (let (neg, u) = stripSign (dropWhile isWhiteSpace s);
          hex = (take 2 u = ''0x'' \<or> take 2 u = ''0X'');
          v = (if hex then drop 2 u else u);
          ds = takeWhile (if hex then isHexDigit else isDigit) v;
          n = mathValue (if hex then 16 else 10) ds
      in if ds = [] then None else Some (if neg then - n else n))"

text \<open>
  \<^verbatim>\<open>parseFloat(s)\<close> on the strings \<open>parseAmount\<close> passes to it. These hold digits,
  commas, periods and minus signs only (every other character has been removed), so
  the exponent part and the literal \<^verbatim>\<open>Infinity\<close> of the grammar cannot occur. The longest
  prefix of the form sign, digits, optional period, digits is read; NaN when it has no
  digit.
\<close>

definition parseFloat :: "string \<Rightarrow> rat option" where
  "parseFloat s =
     (let (neg, u) = stripSign (dropWhile isWhiteSpace s);
          ip = takeWhile isDigit u;
          r = dropWhile isDigit u;
          fp = (case r of c # r' \<Rightarrow> if c = CHR ''.'' then takeWhile isDigit r' else [] | [] \<Rightarrow> []);
          m = of_int (mathValue 10 ip) + of_int (mathValue 10 fp) / 10 ^ length fp
      in if ip = [] \<and> fp = [] then None else Some (if neg then - m else m))"

text \<open>
  \<^verbatim>\<open>Number.prototype.toString\<close> on an integer: its decimal digits, with a minus sign.
  (For a value of \<open>2 ^ 53\<close> or more JavaScript prints the digits of the rounded double;
  the model prints the value read.)
\<close>

function digitsOf :: "int \<Rightarrow> string" where
  "digitsOf n =
     (if n < 10 then [char_of (48 + n)]
      else digitsOf (n div 10) @ [char_of (48 + n mod 10)])"
  by pat_completeness auto
termination
  by (relation "measure nat") auto

definition numberToString :: "int \<Rightarrow> string" where
  "numberToString i = (if i < 0 then CHR ''-'' # digitsOf (- i) else digitsOf i)"

section \<open>Field normalizers (csvParser.js)\<close>

text \<open>
  \<^verbatim>\<open>parseDate(dateStr)\<close>: null for an empty or blank string, for a string that does not
  split into three parts at the slashes, when \<^verbatim>\<open>parseInt\<close> of a part is NaN, and when
  the day or the month is out of range. The year is printed as it is; month and day are
  padded to two characters.
\<close>

definition parseDate :: "string \<Rightarrow> string option" where
  "parseDate dateStr =
     (if dateStr = [] \<or> trim dateStr = [] then None
      else
        let parts = split (CHR ''/'') dateStr in
        if length parts \<noteq> 3 then None
        else
          (case (parseInt (parts ! 0), parseInt (parts ! 1), parseInt (parts ! 2)) of
             (Some day, Some month, Some year) \<Rightarrow>
               if day < 1 \<or> day > 31 \<or> month < 1 \<or> month > 12 then None
               else Some (numberToString year @ ''-''
                          @ padStart 2 (CHR ''0'') (numberToString month) @ ''-''
                          @ padStart 2 (CHR ''0'') (numberToString day))
           | _ \<Rightarrow> None))"

text \<open>The character class \<^verbatim>\<open>[^\d,.-]\<close> removes everything but these characters.\<close>

definition keptInAmount :: "char \<Rightarrow> bool" where
  "keptInAmount c \<longleftrightarrow> isDigit c \<or> c = CHR '','' \<or> c = CHR ''.'' \<or> c = CHR ''-''"

definition cleanAmount :: "string \<Rightarrow> string" where
  "cleanAmount amountStr = replaceFirst (CHR '','') (CHR ''.'') (filter keptInAmount amountStr)"

definition parseAmount :: "string \<Rightarrow> rat option" where
  "parseAmount amountStr =
     (if amountStr = [] \<or> trim amountStr = [] then None
      else parseFloat (cleanAmount amountStr))"


text \<open>
  \<^verbatim>\<open>parsePostalCodeCity\<close>: the pattern \<^verbatim>\<open>/^(\d+)\s+(.+)$/\<close> needs a leading run of digits,
  white space after it, and then at least one character up to the end of the string,
  none of them a line terminator. When only white space follows the digits, the last
  white space character is what \<^verbatim>\<open>(.+)\<close> takes.
\<close>

definition matchPostalCodeCity :: "string \<Rightarrow> (string \<times> string) option" where
  "matchPostalCodeCity s =
     (let d = takeWhile isDigit s;
          w = takeWhile isWhiteSpace (dropWhile isDigit s);
          t = dropWhile isWhiteSpace (dropWhile isDigit s)
      in if d = [] \<or> w = [] then None
         else if t \<noteq> [] then (if list_ex isLineTerminator t then None else Some (d, t))
         else if length w \<ge> 2 \<and> \<not> isLineTerminator (last w) then Some (d, [last w])
         else None)"

definition parsePostalCodeCity :: "string option \<Rightarrow> string option \<times> string option" where
  "parsePostalCodeCity postalCodeCity =
     (case postalCodeCity of
        None \<Rightarrow> (None, None)
      | Some s \<Rightarrow>
          if s = [] \<or> trim s = [] then (None, None)
          else
            (case matchPostalCodeCity s of
               Some (code, city) \<Rightarrow> (Some (trim code), Some (trim city))
             | None \<Rightarrow> (None, Some (trim s))))"

text \<open>
  \<^verbatim>\<open>description.match(re)\<close> without the global flag: the match at the leftmost position
  where one exists.
\<close>

fun searchFrom :: "(string \<Rightarrow> 'a option) \<Rightarrow> string \<Rightarrow> 'a option" where
  "searchFrom m [] = m []"
| "searchFrom m (c # cs) = (case m (c # cs) of Some r \<Rightarrow> Some r | None \<Rightarrow> searchFrom m cs)"

text \<open>\<^verbatim>\<open>/REF\.\s*:\s*([^\s]+)/\<close> anchored at the start of \<open>s\<close>.\<close>

definition matchRef :: "string \<Rightarrow> string option" where
  "matchRef s =
     (if startsWith s ''REF.'' then
        (case dropWhile isWhiteSpace (drop 4 s) of
           c # v \<Rightarrow>
             if c = CHR '':'' then
               (let tok = takeWhile (\<lambda>x. \<not> isWhiteSpace x) (dropWhile isWhiteSpace v)
                in if tok = [] then None else Some tok)
             else None
         | [] \<Rightarrow> None)
      else None)"

text \<open>\<^verbatim>\<open>/Payconiq\s+([a-f0-9]+)/\<close> anchored at the start of \<open>s\<close>.\<close>

definition matchPayconiq :: "string \<Rightarrow> string option" where
  "matchPayconiq s =
     (if startsWith s ''Payconiq'' then
        (let r = drop 8 s;
             tok = takeWhile (\<lambda>x. x \<in> set ''abcdef0123456789'') (dropWhile isWhiteSpace r)
         in if takeWhile isWhiteSpace r = [] \<or> tok = [] then None else Some tok)
      else None)"

definition extractReference :: "string option \<Rightarrow> string option" where
  "extractReference description =
     (case description of
        None \<Rightarrow> None
      | Some d \<Rightarrow>
          if d = [] then None
          else
            (case searchFrom matchRef d of
               Some r \<Rightarrow> Some r
             | None \<Rightarrow> searchFrom matchPayconiq d))"

section \<open>Row mapper (csvParser.js, parseTransactionRow)\<close>

text \<open>
  A row is the object the tokenizer builds for one line: the header names with the
  line's fields, in the order \<^verbatim>\<open>Object.values\<close> lists them. A field that the object
  does not have reads as \<^verbatim>\<open>undefined\<close>, here \<^const>\<open>None\<close>.

  In a transaction \<^const>\<open>None\<close> stands for \<^verbatim>\<open>null\<close>, except in \<open>referenceNumber\<close>,
  which is never \<^verbatim>\<open>null\<close>: it is the extracted reference, or else the transaction
  number as read, a string (possibly empty) or \<^verbatim>\<open>undefined\<close> (\<^const>\<open>None\<close>).
\<close>

type_synonym row = "(string \<times> string) list"

record transaction =
  accountNumber :: string
  statementNumber :: "string option"
  transactionNumber :: "string option"
  bookingDate :: string
  valueDate :: "string option"
  counterpartAccount :: "string option"
  counterpartName :: "string option"
  counterpartAddress :: "string option"
  counterpartPostalCode :: "string option"
  counterpartCity :: "string option"
  transactionType :: "string option"
  amount :: rat
  currency :: string
  bic :: "string option"
  countryCode :: "string option"
  description :: "string option"
  referenceNumber :: "string option"

text \<open>\<^verbatim>\<open>row[name]?.toString().trim()\<close>\<close>

definition field :: "row \<Rightarrow> string \<Rightarrow> string option" where
  "field r name = map_option trim (map_of r name)"

text \<open>\<^verbatim>\<open>!x\<close> for a string or \<^verbatim>\<open>undefined\<close>, and \<^verbatim>\<open>x || null\<close>.\<close>

definition falsy :: "string option \<Rightarrow> bool" where
  "falsy x \<longleftrightarrow> x = None \<or> x = Some []"

definition orNull :: "string option \<Rightarrow> string option" where
  "orNull x = (if falsy x then None else x)"

text \<open>
  The result of the mapper: \<open>Inl message\<close> when it throws \<^verbatim>\<open>new Error(message)\<close>,
  \<open>Inr None\<close> when it returns \<^verbatim>\<open>null\<close>, \<open>Inr (Some t)\<close> when it returns a transaction.
\<close>

definition parseTransactionRow :: "row \<Rightarrow> string + transaction option" where
  "parseTransactionRow r =
     (let accountNumber = field r ''Rekening'';
          bookingDateStr = field r ''Boekingsdatum'';
          statementNumber = field r ''Rekeninguittrekselnummer'';
          transactionNumber = field r ''Transactienummer'';
          counterpartAccount = field r ''Rekening tegenpartij'';
          counterpartName = field r ''Naam tegenpartij bevat'';
          counterpartAddress = field r ''Straat en nummer'';
          counterpartPostalCode = field r ''Postcode en plaats'';
          transactionType = field r ''Transactie'';
          valueDateStr = field r ''Valutadatum'';
          amountStr = field r ''Bedrag'';
          currency = (if falsy (field r ''Devies'') then ''EUR'' else the (field r ''Devies''));
          bic = field r ''BIC'';
          countryCode = field r ''Landcode'';
          description = field r ''Mededelingen''
      in if falsy accountNumber \<or> falsy bookingDateStr \<or> falsy amountStr then Inr None
         else
           (case parseDate (the bookingDateStr) of
              None \<Rightarrow> Inl (''Invalid booking date: '' @ the bookingDateStr)
            | Some bookingDate' \<Rightarrow>
                (case parseAmount (the amountStr) of
                   None \<Rightarrow> Inl (''Invalid amount: '' @ the amountStr)
                 | Some amount' \<Rightarrow>
                     Inr (Some \<lparr>
                       accountNumber = the accountNumber,
                       statementNumber = orNull statementNumber,
                       transactionNumber = orNull transactionNumber,
                       bookingDate = bookingDate',
                       valueDate = (case valueDateStr of None \<Rightarrow> None | Some v \<Rightarrow> parseDate v),
                       counterpartAccount = orNull counterpartAccount,
                       counterpartName = orNull counterpartName,
                       counterpartAddress = orNull counterpartAddress,
                       counterpartPostalCode = fst (parsePostalCodeCity counterpartPostalCode),
                       counterpartCity = snd (parsePostalCodeCity counterpartPostalCode),
                       transactionType = orNull transactionType,
                       amount = amount',
                       currency = currency,
                       bic = orNull bic,
                       countryCode = orNull countryCode,
                       description = orNull description,
                       referenceNumber =
                         (case extractReference description of
                            Some ref \<Rightarrow> Some ref
                          | None \<Rightarrow> transactionNumber) \<rparr>))))"


section \<open>CSV parser (csvParser.js, parseBelgianBankCSV)\<close>

text \<open>
  The tokenizer (Papa.parse with the delimiter \<^verbatim>\<open>;\<close> and a header line) is a library
  outside the repository. It is a parameter of the model: given the file's text it
  throws (\<open>Inl message\<close>) or returns the errors it found and the rows it read.
\<close>

record papa_result =
  papa_errors :: "string list"
  papa_data :: "row list"

type_synonym tokenizer = "string \<Rightarrow> string + papa_result"

datatype parse_result = ParseSuccess "transaction list" | ParseFailure string

text \<open>
  What \<^verbatim>\<open>console.error\<close> receives in the loop's catch block: the row number \<open>i + 1\<close>
  and the message of the error caught. The other console lines are not modelled.
\<close>

type_synonym console = "(nat \<times> string) list"

definition nonBlank :: "string \<Rightarrow> bool" where
  "nonBlank val \<longleftrightarrow> val \<noteq> [] \<and> trim val \<noteq> []"

text \<open>\<^verbatim>\<open>row['Rekening'] || Object.values(row)[0]\<close>\<close>

definition accountCell :: "row \<Rightarrow> string option" where
  "accountCell r =
     (if falsy (map_of r ''Rekening'')
      then (case r of [] \<Rightarrow> None | kv # _ \<Rightarrow> Some (snd kv))
      else map_of r ''Rekening'')"

definition looksLikeTransaction :: "row \<Rightarrow> bool" where
  "looksLikeTransaction r \<longleftrightarrow> \<not> falsy (accountCell r) \<and> startsWith (the (accountCell r)) ''BE''"

text \<open>
  The loop over the rows, with its index \<open>i\<close>, the list \<open>transactions\<close> it pushes to and
  the console.
\<close>

fun processRows :: "row list \<Rightarrow> nat \<Rightarrow> transaction list \<Rightarrow> console \<Rightarrow> transaction list \<times> console" where
  "processRows [] i transactions out = (transactions, out)"
| "processRows (r # rows) i transactions out =
     (if \<not> list_ex nonBlank (map snd r) then processRows rows (Suc i) transactions out
      else if \<not> looksLikeTransaction r then processRows rows (Suc i) transactions out
      else
        (case parseTransactionRow r of
           Inl msg \<Rightarrow> processRows rows (Suc i) transactions (out @ [(i + 1, msg)])
         | Inr None \<Rightarrow> processRows rows (Suc i) transactions out
         | Inr (Some t) \<Rightarrow> processRows rows (Suc i) (transactions @ [t]) out))"

definition parseBelgianBankCSV :: "tokenizer \<Rightarrow> string \<Rightarrow> parse_result \<times> console" where
  "parseBelgianBankCSV papa csvContent =
     (case papa csvContent of
        Inl msg \<Rightarrow> (ParseFailure (''Failed to parse CSV: '' @ msg), [])
      | Inr parsed \<Rightarrow>
          if papa_errors parsed \<noteq> []
          then (ParseFailure (''CSV parsing failed: '' @ hd (papa_errors parsed)), [])
          else
            (let (transactions, out) = processRows (papa_data parsed) 0 [] []
             in if length transactions = 0
                then (ParseFailure ''No valid transactions found in CSV file. Please check the file format.'', out)
                else (ParseSuccess transactions, out)))"

section \<open>Import route (POST /api/upload)\<close>

text \<open>
  A query that fails throws an error with an optional \<^verbatim>\<open>code\<close> and a message. The
  transactions table is behind the interface \<open>insertTransaction\<close>: the new table, or
  the error thrown and the table as it was.
\<close>

datatype query_error = QueryError (err_code: "string option") (err_message: string)

type_synonym 's insert_query = "'s \<Rightarrow> transaction \<Rightarrow> string \<Rightarrow> query_error + 's"

datatype import_status = Pending | Processing | Completed | Failed

text \<open>
  The column \<open>error_message\<close> holds the parse error's text, or the JSON text of the first
  ten row errors; the latter is kept as the list it serialises.
\<close>

datatype log_message = ParseError string | ErrorSample "(nat \<times> string) list"

record import_log =
  log_id :: nat
  filename :: string
  file_hash :: string
  total_records :: nat
  imported_records :: nat
  skipped_records :: nat
  error_records :: nat
  import_status :: import_status
  error_message :: "log_message option"
  imported_at :: nat
  completed_at :: "nat option"

record 's database =
  import_logs :: "import_log list"
  transactions_table :: 's

record upload_file =
  originalname :: string
  fileBuffer :: string

record summary =
  totalRecords :: nat
  imported :: nat
  skipped :: nat
  errors :: nat

datatype response =
    Http400 string
  | Http409 string nat
  | Http200 summary "(nat \<times> string) list"

text \<open>The loop's variables.\<close>

record counters =
  importedCount :: nat
  skippedCount :: nat
  errorCount :: nat
  errorList :: "(nat \<times> string) list"

text \<open>One pass of the loop body for the transaction at index \<open>i\<close>.\<close>

definition persistOne :: "'s insert_query \<Rightarrow> string \<Rightarrow> nat \<Rightarrow> transaction \<Rightarrow> counters \<times> 's \<Rightarrow> counters \<times> 's" where
  "persistOne ins fileHash i t cs =
     (case ins (snd cs) t fileHash of
        Inr s' \<Rightarrow> ((fst cs)\<lparr>importedCount := importedCount (fst cs) + 1\<rparr>, s')
      | Inl e \<Rightarrow>
          if err_code e = Some ''ER_DUP_ENTRY''
          then ((fst cs)\<lparr>skippedCount := skippedCount (fst cs) + 1\<rparr>, snd cs)
          else ((fst cs)\<lparr>errorCount := errorCount (fst cs) + 1,
                          errorList := errorList (fst cs) @ [(i + 1, err_message e)]\<rparr>, snd cs))"

fun persist :: "'s insert_query \<Rightarrow> string \<Rightarrow> transaction list \<Rightarrow> nat \<Rightarrow> counters \<times> 's \<Rightarrow> counters \<times> 's" where
  "persist ins fileHash [] i cs = cs"
| "persist ins fileHash (t # ts) i cs = persist ins fileHash ts (Suc i) (persistOne ins fileHash i t cs)"

text \<open>
  The collaborators of the route that are not part of the repository: the digest of the
  file's bytes, the tokenizer, and the INSERT into the transactions table.
\<close>

record 's env =
  md5 :: "string \<Rightarrow> string"
  papa :: tokenizer
  insertTransaction :: "'s insert_query"

text \<open>AUTO_INCREMENT: an id above every id of the table.\<close>

definition nextLogId :: "import_log list \<Rightarrow> nat" where
  "nextLogId logs = Suc (foldr max (map log_id logs) 0)"

definition newLog :: "nat \<Rightarrow> string \<Rightarrow> string \<Rightarrow> nat \<Rightarrow> import_log" where
  "newLog logId name fileHash now =
     \<lparr> log_id = logId, filename = name, file_hash = fileHash, total_records = 0,
       imported_records = 0, skipped_records = 0, error_records = 0,
       import_status = Processing, error_message = None, imported_at = now,
       completed_at = None \<rparr>"

text \<open>\<^verbatim>\<open>UPDATE import_logs SET ... WHERE id = ?\<close>\<close>

definition updateLog :: "nat \<Rightarrow> (import_log \<Rightarrow> import_log) \<Rightarrow> import_log list \<Rightarrow> import_log list" where
  "updateLog logId f logs = map (\<lambda>l. if log_id l = logId then f l else l) logs"

text \<open>
  The route, at the instant \<open>now\<close> of the database's clock. It returns the response, the
  database and the parser's console. The statements on \<open>import_logs\<close> and the file system
  calls are taken to succeed: a failure of theirs leads to the route's 500 response,
  which is outside the model.
\<close>

definition upload :: "'s env \<Rightarrow> nat \<Rightarrow> 's database \<Rightarrow> upload_file option \<Rightarrow> response \<times> 's database \<times> console" where
  "upload e now db file =
     (case file of
        None \<Rightarrow> (Http400 ''No file uploaded'', db, [])
      | Some f \<Rightarrow>
          let fileHash = md5 e (fileBuffer f);
              existingLog = filter (\<lambda>l. file_hash l = fileHash) (import_logs db)
          in if length existingLog > 0
             then (Http409 ''File already processed'' (imported_at (hd existingLog)), db, [])
             else
               let logId = nextLogId (import_logs db);
                   db1 = db\<lparr>import_logs := import_logs db @ [newLog logId (originalname f) fileHash now]\<rparr>;
                   (parseResult, out) = parseBelgianBankCSV (papa e) (fileBuffer f)
               in (case parseResult of
                     ParseFailure msg \<Rightarrow>
                       (Http400 msg,
                        db1\<lparr>import_logs :=
                          updateLog logId (\<lambda>l. l\<lparr>import_status := Failed, error_message := Some (ParseError msg)\<rparr>)
                            (import_logs db1)\<rparr>,
                        out)
                   | ParseSuccess transactions \<Rightarrow>
                       let (c, s') = persist (insertTransaction e) fileHash transactions 0
                                       (\<lparr>importedCount = 0, skippedCount = 0, errorCount = 0, errorList = []\<rparr>,
                                        transactions_table db1)
                       in (Http200
                             \<lparr>totalRecords = length transactions, imported = importedCount c,
                              skipped = skippedCount c, errors = errorCount c\<rparr>
                             (take 5 (errorList c)),
                           db1\<lparr>import_logs :=
                                 updateLog logId
                                   (\<lambda>l. l\<lparr>total_records := length transactions,
                                          imported_records := importedCount c,
                                          skipped_records := skippedCount c,
                                          error_records := errorCount c,
                                          import_status := (if errorCount c = 0 then Completed else Completed),
                                          completed_at := Some now,
                                          error_message :=
                                            (if length (errorList c) > 0
                                             then Some (ErrorSample (take 10 (errorList c))) else None)\<rparr>)
                                   (import_logs db1),
                               transactions_table := s'\<rparr>,
                           out)))"

section \<open>The transactions table (schema)\<close>

text \<open>
  The table keeps each transaction with the hash of the file it came from. Its unique
  key \<open>unique_transaction\<close> is over account number, booking date, amount, counterpart
  account and reference number. The last two columns are nullable, and a unique index
  of MySQL never reports a conflict for a row that has NULL in a column of the key.
  An INSERT can fail for other reasons (a value a column refuses, a parameter the
  driver refuses); these are the parameter \<open>refuse\<close>.
\<close>

type_synonym tx_table = "(transaction \<times> string) list"

definition sameKey :: "transaction \<Rightarrow> transaction \<Rightarrow> bool" where
  "sameKey t u \<longleftrightarrow>
     accountNumber t = accountNumber u \<and> bookingDate t = bookingDate u \<and> amount t = amount u \<and>
     counterpartAccount t = counterpartAccount u \<and> referenceNumber t = referenceNumber u"

definition uniqueConflict :: "transaction \<Rightarrow> transaction \<Rightarrow> bool" where
  "uniqueConflict t u \<longleftrightarrow>
     sameKey t u \<and> counterpartAccount t \<noteq> None \<and> referenceNumber t \<noteq> None"

definition mysqlInsert :: "(transaction \<Rightarrow> string option) \<Rightarrow> tx_table insert_query" where
  "mysqlInsert refuse tbl t fileHash =
     (case refuse t of
        Some msg \<Rightarrow> Inl (QueryError None msg)
      | None \<Rightarrow>
          if list_ex (\<lambda>u. uniqueConflict t (fst u)) tbl
          then Inl (QueryError (Some ''ER_DUP_ENTRY'') ''Duplicate entry for key unique_transaction'')
          else Inr (tbl @ [(t, fileHash)]))"

section \<open>Notions used to state the properties\<close>

text \<open>
  What the parser's loop does with one row: \<^const>\<open>None\<close> when the row is skipped before
  it is mapped (every field blank, or no account number that starts with \<^verbatim>\<open>BE\<close>),
  otherwise the result of the mapper.
\<close>

definition rowOutcome :: "row \<Rightarrow> (string + transaction option) option" where
  "rowOutcome r =
     (if list_ex nonBlank (map snd r) \<and> looksLikeTransaction r then Some (parseTransactionRow r)
      else None)"

definition survivor :: "row \<Rightarrow> transaction option" where
  "survivor r = (case rowOutcome r of Some (Inr (Some t)) \<Rightarrow> Some t | _ \<Rightarrow> None)"

text \<open>The transactions of the rows that survive, in the order of the rows.\<close>

definition survivors :: "row list \<Rightarrow> transaction list" where
  "survivors rows = List.map_filter survivor rows"

definition rowError :: "nat \<times> row \<Rightarrow> (nat \<times> string) option" where
  "rowError nr = (case rowOutcome (snd nr) of Some (Inl msg) \<Rightarrow> Some (fst nr, msg) | _ \<Rightarrow> None)"

text \<open>
  The errors thrown by the mapper, each with the number of its row, for rows numbered
  from \<open>i + 1\<close>.
\<close>

definition rowErrors :: "nat \<Rightarrow> row list \<Rightarrow> console" where
  "rowErrors i rows = List.map_filter rowError (enumerate (i + 1) rows)"

text \<open>
  A row passes the structural checks: it has an account number that starts with
  \<^verbatim>\<open>BE\<close>, and account number, booking date and amount are present and not blank.
\<close>

definition structurallyValid :: "row \<Rightarrow> bool" where
  "structurallyValid r \<longleftrightarrow>
     looksLikeTransaction r \<and> \<not> falsy (field r ''Rekening'') \<and>
     \<not> falsy (field r ''Boekingsdatum'') \<and> \<not> falsy (field r ''Bedrag'')"

definition dateParses :: "row \<Rightarrow> bool" where
  "dateParses r \<longleftrightarrow> parseDate (the (field r ''Boekingsdatum'')) \<noteq> None"

definition amountFails :: "row \<Rightarrow> bool" where
  "amountFails r \<longleftrightarrow> parseAmount (the (field r ''Bedrag'')) = None"

definition amountError :: "nat \<times> row \<Rightarrow> (nat \<times> string) option" where
  "amountError nr =
     (if amountFails (snd nr) then Some (fst nr, ''Invalid amount: '' @ the (field (snd nr) ''Bedrag''))
      else None)"

text \<open>Every INSERT of the loop succeeds, from the table \<open>s\<close> on.\<close>

fun allInserted :: "'s insert_query \<Rightarrow> string \<Rightarrow> transaction list \<Rightarrow> 's \<Rightarrow> bool" where
  "allInserted ins fileHash [] s = True"
| "allInserted ins fileHash (t # ts) s =
     (case ins s t fileHash of Inr s' \<Rightarrow> allInserted ins fileHash ts s' | Inl e \<Rightarrow> False)"

text \<open>The table after the INSERTs of the loop, when all succeed.\<close>

fun insertAll :: "'s insert_query \<Rightarrow> string \<Rightarrow> transaction list \<Rightarrow> 's \<Rightarrow> 's" where
  "insertAll ins fileHash [] s = s"
| "insertAll ins fileHash (t # ts) s =
     (case ins s t fileHash of Inr s' \<Rightarrow> insertAll ins fileHash ts s' | Inl e \<Rightarrow> insertAll ins fileHash ts s)"

definition noLogFor :: "string \<Rightarrow> import_log list \<Rightarrow> bool" where
  "noLogFor fileHash logs \<longleftrightarrow> filter (\<lambda>l. file_hash l = fileHash) logs = []"

definition noValidTransactions :: string where
  "noValidTransactions = ''No valid transactions found in CSV file. Please check the file format.''"

text \<open>The counters before the loop, and the two updates of the import log.\<close>

definition startCounters :: counters where
  "startCounters = \<lparr>importedCount = 0, skippedCount = 0, errorCount = 0, errorList = []\<rparr>"

definition failedLog :: "string \<Rightarrow> import_log \<Rightarrow> import_log" where
  "failedLog msg l = l\<lparr>import_status := Failed, error_message := Some (ParseError msg)\<rparr>"

definition completedLog :: "nat \<Rightarrow> counters \<Rightarrow> nat \<Rightarrow> import_log \<Rightarrow> import_log" where
  "completedLog n c now l =
     l\<lparr>total_records := n, imported_records := importedCount c, skipped_records := skippedCount c,
       error_records := errorCount c, import_status := Completed, completed_at := Some now,
       error_message := (if length (errorList c) > 0 then Some (ErrorSample (take 10 (errorList c))) else None)\<rparr>"

text \<open>The import logs of the file with the given hash.\<close>

definition logsFor :: "string \<Rightarrow> 's database \<Rightarrow> import_log list" where
  "logsFor fileHash db = filter (\<lambda>l. file_hash l = fileHash) (import_logs db)"

section \<open>Example files\<close>

text \<open>
  A tokenizer that returns the given rows without errors, and an environment with it, a
  table that refuses nothing but duplicates, and the identity in place of the digest
  (two files have the same digest when they have the same bytes).
\<close>

definition fixedTokenizer :: "row list \<Rightarrow> tokenizer" where
  "fixedTokenizer rows = (\<lambda>csvContent. Inr \<lparr>papa_errors = [], papa_data = rows\<rparr>)"

definition exampleEnv :: "row list \<Rightarrow> tx_table env" where
  "exampleEnv rows =
     \<lparr>md5 = (\<lambda>bytes. bytes), papa = fixedTokenizer rows, insertTransaction = mysqlInsert (\<lambda>t. None)\<rparr>"

definition emptyDatabase :: "tx_table database" where
  "emptyDatabase = \<lparr>import_logs = [], transactions_table = []\<rparr>"

definition exampleRow :: "string \<Rightarrow> string \<Rightarrow> string \<Rightarrow> string \<Rightarrow> string \<Rightarrow> row" where
  "exampleRow account date number counterpart amountStr =
     [(''Rekening'', account), (''Boekingsdatum'', date), (''Transactienummer'', number),
      (''Rekening tegenpartij'', counterpart), (''Bedrag'', amountStr)]"

text \<open>Ten rows that pass the structural checks; the amounts of rows 3 and 7 do not parse.\<close>

definition tenRows :: "row list" where
  "tenRows =
     [exampleRow ''BE01'' ''01/03/2024'' ''1'' ''BE77'' ''10,00'',
      exampleRow ''BE01'' ''02/03/2024'' ''2'' ''BE77'' ''-20,50'',
      exampleRow ''BE01'' ''03/03/2024'' ''3'' ''BE77'' ''abc'',
      exampleRow ''BE01'' ''04/03/2024'' ''4'' ''BE77'' ''40,00'',
      exampleRow ''BE01'' ''05/03/2024'' ''5'' ''BE77'' ''-5,25'',
      exampleRow ''BE01'' ''06/03/2024'' ''6'' ''BE77'' ''60'',
      exampleRow ''BE01'' ''07/03/2024'' ''7'' ''BE77'' ''n/a'',
      exampleRow ''BE01'' ''08/03/2024'' ''8'' ''BE77'' ''80,10'',
      exampleRow ''BE01'' ''09/03/2024'' ''9'' ''BE77'' ''-90,00'',
      exampleRow ''BE01'' ''10/03/2024'' ''10'' ''BE77'' ''100,00'']"

text \<open>Five rows with no counterpart account, as a card payment has none.\<close>

definition fiveRows :: "row list" where
  "fiveRows =
     [exampleRow ''BE01'' ''01/03/2024'' ''1'' '''' ''-10,00'',
      exampleRow ''BE01'' ''02/03/2024'' ''2'' '''' ''-20,50'',
      exampleRow ''BE01'' ''03/03/2024'' ''3'' '''' ''-30,00'',
      exampleRow ''BE01'' ''04/03/2024'' ''4'' '''' ''-40,00'',
      exampleRow ''BE01'' ''05/03/2024'' ''5'' '''' ''-5,25'']"

text \<open>The same five rows with a counterpart account.\<close>

definition fiveRowsWithCounterpart :: "row list" where
  "fiveRowsWithCounterpart =
     [exampleRow ''BE01'' ''01/03/2024'' ''1'' ''BE77'' ''-10,00'',
      exampleRow ''BE01'' ''02/03/2024'' ''2'' ''BE77'' ''-20,50'',
      exampleRow ''BE01'' ''03/03/2024'' ''3'' ''BE77'' ''-30,00'',
      exampleRow ''BE01'' ''04/03/2024'' ''4'' ''BE77'' ''-40,00'',
      exampleRow ''BE01'' ''05/03/2024'' ''5'' ''BE77'' ''-5,25'']"

definition fileA :: upload_file where
  "fileA = \<lparr>originalname = ''march.csv'', fileBuffer = ''A''\<rparr>"

definition fileB :: upload_file where
  "fileB = \<lparr>originalname = ''march-again.csv'', fileBuffer = ''B''\<rparr>"

text \<open>A row that parses, a row with an impossible month, and a row with no amount in it.\<close>

definition goodRow :: row where
  "goodRow = exampleRow ''BE01'' ''01/03/2024'' ''1'' ''BE77'' ''10,00''"

definition badDateRow :: row where
  "badDateRow = exampleRow ''BE01'' ''31/13/2024'' ''2'' ''BE77'' ''20,00''"

definition badAmountRow :: row where
  "badAmountRow = exampleRow ''BE01'' ''03/03/2024'' ''3'' ''BE77'' ''abc''"

definition laterRow :: row where
  "laterRow = exampleRow ''BE01'' ''04/03/2024'' ''4'' ''BE77'' ''-40,00''"

text \<open>Lines of a statement that are not transactions: no account number in front.\<close>

definition summaryRows :: "row list" where
  "summaryRows =
     [exampleRow ''Saldo'' ''01/03/2024'' '''' '''' ''100,00'',
      exampleRow ''Totaal'' '''' '''' '''' ''35,25'']"

text \<open>
  A table that holds the first two of the five rows with a counterpart account, and
  refuses an amount below -35.
\<close>

definition refusingEnv :: "tx_table env" where
  "refusingEnv =
     \<lparr>md5 = (\<lambda>bytes. bytes), papa = fixedTokenizer fiveRowsWithCounterpart,
      insertTransaction =
        mysqlInsert (\<lambda>t. if amount t < - 35 then Some ''Out of range value for column amount'' else None)\<rparr>"

definition preloadedDatabase :: "tx_table database" where
  "preloadedDatabase =
     \<lparr>import_logs = [],
      transactions_table = map (\<lambda>t. (t, ''earlier file'')) (survivors (take 2 fiveRowsWithCounterpart))\<rparr>"

section \<open>Properties of the field normalizers\<close>

subsection \<open>White space and trimming\<close>

lemma trim_Nil_iff: "trim s = [] \<longleftrightarrow> list_all isWhiteSpace s"
proof -
  have "dropWhile isWhiteSpace s = [] \<longleftrightarrow> list_all isWhiteSpace s"
    by (simp add: dropWhile_eq_Nil_conv list_all_iff)
  moreover have "trim s \<noteq> []" if ne: "dropWhile isWhiteSpace s \<noteq> []"
  proof -
    from ne have "\<not> isWhiteSpace (hd (dropWhile isWhiteSpace s))"
      by (rule hd_dropWhile)
    moreover have "hd (dropWhile isWhiteSpace s) \<in> set (rev (dropWhile isWhiteSpace s))"
      using ne by simp
    ultimately show ?thesis
      unfolding trim_def by (auto simp: dropWhile_eq_Nil_conv)
  qed
  moreover have "trim s = []" if e: "dropWhile isWhiteSpace s = []"
    unfolding trim_def e by simp
  ultimately show ?thesis by blast
qed

lemma trim_no_space:
  assumes "\<not> list_ex isWhiteSpace s"
  shows "trim s = s"
proof -
  from assms have a: "\<forall>c\<in>set s. \<not> isWhiteSpace c" by (simp add: list_ex_iff)
  then have 1: "dropWhile isWhiteSpace s = s"
    by (cases s) auto
  from a have "\<forall>c\<in>set (rev s). \<not> isWhiteSpace c" by simp
  then have 2: "dropWhile isWhiteSpace (rev s) = rev s"
    by (cases "rev s") auto
  show ?thesis by (simp add: trim_def 1 2)
qed

lemma isDigit_not_space: "isDigit c \<Longrightarrow> \<not> isWhiteSpace c"
  by (auto simp: isDigit_def isWhiteSpace_def)

lemma kept_not_space: "keptInAmount c \<Longrightarrow> \<not> isWhiteSpace c"
  by (auto simp: keptInAmount_def isDigit_def isWhiteSpace_def)

subsection \<open>parseAmount\<close>

lemma replaceFirst_append: "a \<notin> set xs \<Longrightarrow> replaceFirst a b (xs @ ys) = xs @ replaceFirst a b ys"
  by (induction xs) auto

lemma filter_kept_digits: "list_all isDigit xs \<Longrightarrow> filter keptInAmount xs = xs"
  by (induction xs) (simp_all add: keptInAmount_def)

lemma no_comma_digits: "list_all isDigit xs \<Longrightarrow> CHR '','' \<notin> set xs"
  by (induction xs) (auto simp: isDigit_def)

lemma parseFloat_Nil: "parseFloat [] = None"
  by (simp add: parseFloat_def stripSign_def)

lemma filter_kept_space: "list_all isWhiteSpace s \<Longrightarrow> filter keptInAmount s = []"
  by (induction s) (auto dest: kept_not_space)

lemma trim_filter_kept: "trim (filter keptInAmount s) = filter keptInAmount s"
proof (rule trim_no_space)
  show "\<not> list_ex isWhiteSpace (filter keptInAmount s)"
    by (induction s) (auto dest: kept_not_space)
qed

text \<open>The number read from digits, a period, digits and a second period.\<close>

lemma parseFloat_digits_point:
  assumes "ip \<noteq> []" "list_all isDigit ip" "list_all isDigit g"
  shows "parseFloat (ip @ CHR ''.'' # g @ CHR ''.'' # rest) =
           Some (of_int (mathValue 10 ip) + of_int (mathValue 10 g) / 10 ^ length g)"
proof -
  let ?s = "ip @ CHR ''.'' # g @ CHR ''.'' # rest"
  obtain c cs where ip: "ip = c # cs" using assms(1) by (cases ip) auto
  have dc: "isDigit c" using assms(2) ip by simp
  have nd: "\<not> isDigit (CHR ''.'')" by (simp add: isDigit_def)
  have 1: "dropWhile isWhiteSpace ?s = ?s"
    using isDigit_not_space[OF dc] by (simp add: ip)
  have 2: "stripSign ?s = (False, ?s)"
    using dc by (auto simp: stripSign_def ip isDigit_def)
  have 3: "takeWhile isDigit ?s = ip"
    using assms(2) nd by (simp add: list_all_iff)
  have 4: "dropWhile isDigit ?s = CHR ''.'' # g @ CHR ''.'' # rest"
    using assms(2) nd by (simp add: list_all_iff)
  have 5: "takeWhile isDigit (g @ CHR ''.'' # rest) = g"
    using assms(3) nd by (simp add: list_all_iff)
  show ?thesis
    unfolding parseFloat_def 1 2 by (simp add: 3 4 5 assms(1) Let_def)
qed

text \<open>Removing the characters that \<open>parseAmount\<close> strips anyway changes nothing.\<close>

lemma parseAmount_filter_kept: "parseAmount (filter keptInAmount s) = parseAmount s"
proof (cases "list_all isWhiteSpace s")
  case True
  have "trim s = []" using True by (simp add: trim_Nil_iff)
  then show ?thesis
    unfolding parseAmount_def filter_kept_space[OF True] by simp
next
  case False
  then have ns: "trim s \<noteq> []" by (simp add: trim_Nil_iff)
  then have ne: "s \<noteq> []" by (auto simp: trim_def)
  have cl: "cleanAmount (filter keptInAmount s) = cleanAmount s" by (simp add: cleanAmount_def)
  have l: "parseAmount s = parseFloat (cleanAmount s)"
    unfolding parseAmount_def using ns ne by simp
  show ?thesis
  proof (cases "filter keptInAmount s = []")
    case True
    have "cleanAmount s = []" unfolding cleanAmount_def True by simp
    then have "parseAmount s = None" unfolding l by (simp add: parseFloat_Nil)
    moreover have "parseAmount (filter keptInAmount s) = None"
      unfolding True parseAmount_def by simp
    ultimately show ?thesis by simp
  next
    case f: False
    have "parseAmount (filter keptInAmount s) = parseFloat (cleanAmount (filter keptInAmount s))"
      unfolding parseAmount_def trim_filter_kept using f by simp
    then show ?thesis unfolding cl l .
  qed
qed

lemma keptInAmount_chars: "keptInAmount c \<longleftrightarrow> c \<in> set ''0123456789,.-''"
  by (auto simp: keptInAmount_def isDigit_def)

text \<open>
  Claim C4. \<open>parseAmount\<close> removes every character that is not a digit, a comma, a
  period or a minus sign, replaces the (first) comma by a period and parses what is left
  as a number. It returns null for an empty or blank input and when what is left does
  not start with a number. The characters it removes have no influence on the result.
  The four examples of the specification hold: \<^verbatim>\<open>"1234,56"\<close> gives 1234.56,
  \<^verbatim>\<open>"-12,30"\<close> gives -12.30, \<^verbatim>\<open>"abc"\<close> and the empty string give null.
\<close>

theorem parseAmount_strips_and_parses:
  "parseAmount s =
     (if trim s = [] then None
      else parseFloat (replaceFirst (CHR '','') (CHR ''.'') (filter (\<lambda>c. c \<in> set ''0123456789,.-'') s)))
   \<and> (parseAmount s = None \<longleftrightarrow> trim s = [] \<or> parseFloat (cleanAmount s) = None)
   \<and> parseAmount (filter keptInAmount s) = parseAmount s
   \<and> parseAmount ''1234,56'' = Some 1234.56
   \<and> parseAmount ''-12,30'' = Some (- 12.30)
   \<and> parseAmount ''abc'' = None
   \<and> parseAmount '''' = None"
proof -
  have e: "s = [] \<Longrightarrow> trim s = []" by (simp add: trim_def)
  have k: "filter (\<lambda>c. c \<in> set ''0123456789,.-'') s = filter keptInAmount s"
    by (rule filter_cong) (simp_all only: keptInAmount_chars)
  have 1: "parseAmount s =
     (if trim s = [] then None
      else parseFloat (replaceFirst (CHR '','') (CHR ''.'') (filter (\<lambda>c. c \<in> set ''0123456789,.-'') s)))"
    unfolding k parseAmount_def cleanAmount_def using e by auto
  have 2: "parseAmount s = None \<longleftrightarrow> trim s = [] \<or> parseFloat (cleanAmount s) = None"
    unfolding parseAmount_def using e by auto
  have 3: "parseAmount ''1234,56'' = Some 1234.56" by code_simp
  have 4: "parseAmount ''-12,30'' = Some (- 12.30)" by code_simp
  have 5: "parseAmount ''abc'' = None" by code_simp
  have 6: "parseAmount '''' = None" by code_simp
  show ?thesis
    using 1 2 3 4 5 6 parseAmount_filter_kept[of s] by blast
qed

text \<open>
  Claim C10. For an amount written with a period as thousands separator and a comma as
  decimal separator (digits, a period, digits, and then a comma or a further period
  followed by anything), \<open>parseAmount\<close> returns the number made of the digits before
  and after the first period, not null and not the intended amount: the comma becomes a
  second period, the periods are kept, and the number is read up to the second period.
  In particular \<^verbatim>\<open>"1.234,56"\<close> is cleaned to \<^verbatim>\<open>"1.234.56"\<close> and gives 1.234.
\<close>

theorem parseAmount_thousands_separator:
  assumes "ip \<noteq> []" "list_all isDigit ip" "list_all isDigit g"
    and "sep = CHR '','' \<or> sep = CHR ''.''"
  shows "parseAmount (ip @ ''.'' @ g @ sep # rest) =
           Some (of_int (mathValue 10 ip) + of_int (mathValue 10 g) / 10 ^ length g)
         \<and> cleanAmount ''1.234,56'' = ''1.234.56''
         \<and> parseAmount ''1.234,56'' = Some 1.234"
proof -
  note a = assms
  let ?s = "ip @ ''.'' @ g @ sep # rest"
  have ksep: "keptInAmount sep" using a(4) by (auto simp: keptInAmount_def)
  have f: "filter keptInAmount ?s = ip @ CHR ''.'' # g @ sep # filter keptInAmount rest"
    using ksep by (simp add: keptInAmount_def filter_kept_digits[OF a(2)] filter_kept_digits[OF a(3)])
  have r: "replaceFirst (CHR '','') (CHR ''.'') (ip @ CHR ''.'' # g @ sep # filter keptInAmount rest)
        = ip @ CHR ''.'' # g @ replaceFirst (CHR '','') (CHR ''.'') (sep # filter keptInAmount rest)"
    using no_comma_digits[OF a(2)] no_comma_digits[OF a(3)]
    by (simp add: replaceFirst_append)
  obtain rest' where s: "replaceFirst (CHR '','') (CHR ''.'') (sep # filter keptInAmount rest) = CHR ''.'' # rest'"
    using a(4) by auto
  have c: "cleanAmount ?s = ip @ CHR ''.'' # g @ CHR ''.'' # rest'"
    unfolding cleanAmount_def f r s ..
  obtain d ds where ip: "ip = d # ds" using a(1) by (cases ip) auto
  have "\<not> isWhiteSpace d" using a(2) ip isDigit_not_space by simp
  then have "\<not> list_all isWhiteSpace ?s" by (simp add: ip)
  then have nb: "trim ?s \<noteq> []" by (simp add: trim_Nil_iff)
  have "parseAmount ?s = parseFloat (cleanAmount ?s)"
    unfolding parseAmount_def using nb a(1) by simp
  then have 1: "parseAmount ?s = Some (of_int (mathValue 10 ip) + of_int (mathValue 10 g) / 10 ^ length g)"
    unfolding c using parseFloat_digits_point[OF a(1,2,3)] by simp
  have 2: "cleanAmount ''1.234,56'' = ''1.234.56''" by code_simp
  have 3: "parseAmount ''1.234,56'' = Some 1.234" by code_simp
  show ?thesis using 1 2 3 by blast
qed

theorem parseAmount_thousands_separator_witness:
  "''12'' \<noteq> [] \<and> list_all isDigit ''12'' \<and> list_all isDigit ''345''
   \<and> parseAmount ''12.345.678,90'' = Some 12.345"
proof -
  have h1: "''12'' \<noteq> []" by simp
  have h2: "list_all isDigit ''12''" by (simp add: isDigit_def)
  have h3: "list_all isDigit ''345''" by (simp add: isDigit_def)
  have h4: "CHR ''.'' = CHR '','' \<or> CHR ''.'' = CHR ''.''" by simp
  have v: "(of_int (mathValue 10 ''12'') + of_int (mathValue 10 ''345'') / 10 ^ length ''345'' :: rat) = 12.345"
    by (simp add: mathValue_def digitValue_def isDigit_def)
  from parseAmount_thousands_separator[OF h1 h2 h3 h4, of "''678,90''"]
  have "parseAmount ''12.345.678,90'' = Some 12.345"
    unfolding v by simp
  with h1 h2 h3 show ?thesis by blast
qed

subsection \<open>parseDate\<close>

text \<open>When \<open>parseDate\<close> returns null: a part counts as a number when \<^verbatim>\<open>parseInt\<close> reads one.\<close>

lemma parseDate_null_iff:
  "parseDate s = None \<longleftrightarrow>
     trim s = [] \<or> length (split (CHR ''/'') s) \<noteq> 3
     \<or> parseInt (split (CHR ''/'') s ! 0) = None
     \<or> parseInt (split (CHR ''/'') s ! 1) = None
     \<or> parseInt (split (CHR ''/'') s ! 2) = None
     \<or> the (parseInt (split (CHR ''/'') s ! 0)) < 1 \<or> the (parseInt (split (CHR ''/'') s ! 0)) > 31
     \<or> the (parseInt (split (CHR ''/'') s ! 1)) < 1 \<or> the (parseInt (split (CHR ''/'') s ! 1)) > 12"
proof -
  have e: "s = [] \<Longrightarrow> trim s = []" by (simp add: trim_def)
  show ?thesis
    unfolding parseDate_def Let_def using e
    by (auto split: option.splits)
qed

text \<open>
  Claim C5. The code does not return a date in the format YYYY-MM-DD for every input
  it accepts: the year is printed without padding, and \<^verbatim>\<open>parseInt\<close> reads the leading
  digits of a part and ignores what follows. \<^verbatim>\<open>"1/1/24"\<close> gives \<^verbatim>\<open>"24-01-01"\<close>, and
  \<^verbatim>\<open>"1x/1/2024"\<close>, whose first part is not a number, gives \<^verbatim>\<open>"2024-01-01"\<close>. The three
  examples of the specification hold.
\<close>

theorem parseDate_accepts_malformed:
  "parseDate ''1/1/24'' = Some ''24-01-01''
   \<and> parseDate ''1x/1/2024'' = Some ''2024-01-01''
   \<and> parseDate ''29/02/2024'' = Some ''2024-02-29''
   \<and> parseDate ''31/13/2024'' = None
   \<and> parseDate ''1/1/2024'' = Some ''2024-01-01''"
proof -
  have 1: "parseDate ''1/1/24'' = Some ''24-01-01''" by code_simp
  have 2: "parseDate ''1x/1/2024'' = Some ''2024-01-01''" by code_simp
  have 3: "parseDate ''29/02/2024'' = Some ''2024-02-29''" by code_simp
  have 4: "parseDate ''31/13/2024'' = None" by code_simp
  have 5: "parseDate ''1/1/2024'' = Some ''2024-01-01''" by code_simp
  show ?thesis using 1 2 3 4 5 by blast
qed

section \<open>Properties of the parser loop and of the import route\<close>

lemma survivors_Nil: "survivors [] = []"
  by (simp add: survivors_def map_filter_simps)

lemma survivors_Cons:
  "survivors (r # rows) = (case survivor r of Some t \<Rightarrow> t # survivors rows | None \<Rightarrow> survivors rows)"
  by (simp add: survivors_def map_filter_simps split: option.split)

lemma survivors_append: "survivors (xs @ ys) = survivors xs @ survivors ys"
  by (induction xs) (simp_all add: survivors_Nil survivors_Cons split: option.split)

lemma rowErrors_Nil: "rowErrors i [] = []"
  by (simp add: rowErrors_def map_filter_simps)

lemma rowErrors_Cons:
  "rowErrors i (r # rows) =
     (case rowError (i + 1, r) of Some e \<Rightarrow> e # rowErrors (Suc i) rows | None \<Rightarrow> rowErrors (Suc i) rows)"
  by (simp add: rowErrors_def map_filter_simps split: option.split)

lemma rowErrors_append:
  "rowErrors i (xs @ ys) = rowErrors i xs @ rowErrors (i + length xs) ys"
proof (induction xs arbitrary: i)
  case Nil
  show ?case by (simp add: rowErrors_Nil)
next
  case (Cons x xs)
  show ?case by (simp add: rowErrors_Cons Cons.IH split: option.split)
qed

lemma processRows_eq:
  "processRows rows i transactions out = (transactions @ survivors rows, out @ rowErrors i rows)"
proof (induction rows arbitrary: i transactions out)
  case Nil
  show ?case by (simp add: survivors_Nil rowErrors_Nil)
next
  case (Cons r rows)
  show ?case
    by (simp add: Cons.IH survivors_Cons rowErrors_Cons survivor_def rowError_def rowOutcome_def
          split: sum.split option.split)
qed

lemma parseBelgianBankCSV_eq:
  assumes "tok csv = Inr parsed" "papa_errors parsed = []"
  shows "parseBelgianBankCSV tok csv =
           (if survivors (papa_data parsed) = [] then ParseFailure noValidTransactions
            else ParseSuccess (survivors (papa_data parsed)),
            rowErrors 0 (papa_data parsed))"
  using assms by (simp add: parseBelgianBankCSV_def processRows_eq noValidTransactions_def)


lemma log_id_le: "l \<in> set logs \<Longrightarrow> log_id l \<le> foldr max (map log_id logs) 0"
  by (induction logs) auto

lemma updateLog_other: "\<forall>l\<in>set logs. log_id l \<noteq> k \<Longrightarrow> updateLog k g logs = logs"
  by (induction logs) (simp_all add: updateLog_def)

lemma updateLog_fresh:
  "updateLog (nextLogId logs) g (logs @ [newLog (nextLogId logs) name h now]) =
     logs @ [g (newLog (nextLogId logs) name h now)]"
proof -
  have "\<forall>l\<in>set logs. log_id l \<noteq> nextLogId logs"
    using log_id_le[of _ logs] by (fastforce simp: nextLogId_def)
  then have "updateLog (nextLogId logs) g logs = logs" by (rule updateLog_other)
  then show ?thesis
    by (simp add: updateLog_def newLog_def)
qed

lemma persistOne_step:
  "fst (persistOne ins h i t (c, s)) = c\<lparr>importedCount := importedCount c + 1\<rparr> \<or>
   fst (persistOne ins h i t (c, s)) = c\<lparr>skippedCount := skippedCount c + 1\<rparr> \<or>
   (\<exists>msg. fst (persistOne ins h i t (c, s)) =
       c\<lparr>errorCount := errorCount c + 1, errorList := errorList c @ [(i + 1, msg)]\<rparr>)"
  by (auto simp: persistOne_def split: sum.split)

lemma persistOne_sum:
  "importedCount (fst (persistOne ins h i t cs)) + skippedCount (fst (persistOne ins h i t cs))
     + errorCount (fst (persistOne ins h i t cs))
   = Suc (importedCount (fst cs) + skippedCount (fst cs) + errorCount (fst cs))"
  by (simp add: persistOne_def split: sum.split)

lemma persist_sum:
  "importedCount (fst (persist ins h ts i cs)) + skippedCount (fst (persist ins h ts i cs))
     + errorCount (fst (persist ins h ts i cs))
   = importedCount (fst cs) + skippedCount (fst cs) + errorCount (fst cs) + length ts"
proof (induction ts arbitrary: i cs)
  case Nil
  show ?case by simp
next
  case (Cons t ts)
  show ?case
    unfolding persist.simps Cons.IH persistOne_sum by simp
qed

lemma persist_allInserted:
  "allInserted ins h ts s \<Longrightarrow>
   persist ins h ts i (c, s) = (c\<lparr>importedCount := importedCount c + length ts\<rparr>, insertAll ins h ts s)"
proof (induction ts arbitrary: i c s)
  case Nil
  show ?case by simp
next
  case (Cons t ts)
  from Cons.prems obtain s' where s': "ins s t h = Inr s'" and rest: "allInserted ins h ts s'"
    by (auto split: sum.splits)
  have "persistOne ins h i t (c, s) = (c\<lparr>importedCount := importedCount c + 1\<rparr>, s')"
    by (simp add: persistOne_def s')
  then show ?case
    using Cons.IH[OF rest] by (simp add: s')
qed

lemma upload_fresh:
  assumes "noLogFor (md5 e (fileBuffer f)) (import_logs db)"
  shows "upload e now db (Some f) =
    (case parseBelgianBankCSV (papa e) (fileBuffer f) of
       (ParseFailure msg, out) \<Rightarrow>
         (Http400 msg,
          db\<lparr>import_logs := import_logs db @
             [failedLog msg (newLog (nextLogId (import_logs db)) (originalname f) (md5 e (fileBuffer f)) now)]\<rparr>,
          out)
     | (ParseSuccess txs, out) \<Rightarrow>
         (case persist (insertTransaction e) (md5 e (fileBuffer f)) txs 0 (startCounters, transactions_table db) of
            (c, s') \<Rightarrow>
              (Http200 \<lparr>totalRecords = length txs, imported = importedCount c,
                        skipped = skippedCount c, errors = errorCount c\<rparr> (take 5 (errorList c)),
               db\<lparr>import_logs := import_logs db @
                    [completedLog (length txs) c now
                       (newLog (nextLogId (import_logs db)) (originalname f) (md5 e (fileBuffer f)) now)],
                  transactions_table := s'\<rparr>,
               out)))"
  using assms
  by (simp add: upload_def noLogFor_def Let_def updateLog_fresh failedLog_def completedLog_def
        startCounters_def split: prod.split parse_result.split)

lemma noLogFor_iff: "noLogFor h (import_logs db) \<longleftrightarrow> \<not> length (filter (\<lambda>l. file_hash l = h) (import_logs db)) > 0"
  by (simp add: noLogFor_def)

lemma survivors_none: "list_all (\<lambda>r. \<not> looksLikeTransaction r) rows \<Longrightarrow> survivors rows = []"
  by (induction rows) (simp_all add: survivors_Nil survivors_Cons survivor_def rowOutcome_def)

lemma upload_fresh_log:
  assumes "noLogFor (md5 e (fileBuffer f)) (import_logs db)"
  shows "\<exists>l. logsFor (md5 e (fileBuffer f)) (fst (snd (upload e now db (Some f)))) = [l]
             \<and> imported_at l = now"
proof -
  have old: "filter (\<lambda>l. file_hash l = md5 e (fileBuffer f)) (import_logs db) = []"
    using assms by (simp add: noLogFor_def)
  show ?thesis
    unfolding upload_fresh[OF assms]
    by (simp add: logsFor_def old failedLog_def completedLog_def newLog_def
          split: prod.split parse_result.split)
qed

lemma upload_duplicate:
  assumes "logsFor (md5 e (fileBuffer f)) db = l # ls"
  shows "upload e now db (Some f) = (Http409 ''File already processed'' (imported_at l), db, [])"
  using assms by (simp add: upload_def logsFor_def Let_def)

lemma upload_fresh_response:
  assumes "noLogFor (md5 e (fileBuffer f)) (import_logs db)"
  shows "(\<exists>sm errs. fst (upload e now db (Some f)) = Http200 sm errs) \<longleftrightarrow>
           (\<exists>txs. fst (parseBelgianBankCSV (papa e) (fileBuffer f)) = ParseSuccess txs)"
    and "(\<exists>msg. fst (upload e now db (Some f)) = Http400 msg) \<longleftrightarrow>
           (\<exists>msg. fst (parseBelgianBankCSV (papa e) (fileBuffer f)) = ParseFailure msg)"
  unfolding upload_fresh[OF assms]
  by (auto split: prod.split parse_result.split)

lemma mapper_null_iff:
  "parseTransactionRow r = Inr None \<longleftrightarrow>
     falsy (field r ''Rekening'') \<or> falsy (field r ''Boekingsdatum'') \<or> falsy (field r ''Bedrag'')"
  by (simp add: parseTransactionRow_def Let_def split: option.split)

lemma mapper_bad_date:
  assumes "\<not> falsy (field r ''Rekening'')" "\<not> falsy (field r ''Boekingsdatum'')" "\<not> falsy (field r ''Bedrag'')"
    and "parseDate (the (field r ''Boekingsdatum'')) = None"
  shows "parseTransactionRow r = Inl (''Invalid booking date: '' @ the (field r ''Boekingsdatum''))"
  using assms by (simp add: parseTransactionRow_def Let_def)

lemma mapper_bad_amount:
  assumes "\<not> falsy (field r ''Rekening'')" "\<not> falsy (field r ''Boekingsdatum'')" "\<not> falsy (field r ''Bedrag'')"
    and "parseDate (the (field r ''Boekingsdatum'')) \<noteq> None"
    and "parseAmount (the (field r ''Bedrag'')) = None"
  shows "parseTransactionRow r = Inl (''Invalid amount: '' @ the (field r ''Bedrag''))"
  using assms by (auto simp: parseTransactionRow_def Let_def)

lemma mapper_ok:
  assumes "\<not> falsy (field r ''Rekening'')" "\<not> falsy (field r ''Boekingsdatum'')" "\<not> falsy (field r ''Bedrag'')"
    and "parseDate (the (field r ''Boekingsdatum'')) \<noteq> None"
    and "parseAmount (the (field r ''Bedrag'')) \<noteq> None"
  shows "\<exists>t. parseTransactionRow r = Inr (Some t)"
  using assms by (auto simp: parseTransactionRow_def Let_def)

lemma trim_Nil: "trim [] = []"
  by (simp add: trim_def)

lemma valid_nonBlank:
  assumes "structurallyValid r"
  shows "list_ex nonBlank (map snd r)"
proof -
  from assms have nf: "\<not> falsy (field r ''Rekening'')" by (simp add: structurallyValid_def)
  then obtain v where v: "map_of r ''Rekening'' = Some v"
    by (cases "map_of r ''Rekening''") (simp_all add: falsy_def field_def)
  with nf have "trim v \<noteq> []" by (simp add: falsy_def field_def)
  then have "nonBlank v" using trim_Nil by (auto simp: nonBlank_def)
  moreover have "v \<in> snd ` set r" using map_of_SomeD[OF v] by force
  ultimately show ?thesis by (auto simp: list_ex_iff)
qed

lemma valid_rowOutcome:
  assumes "structurallyValid r"
  shows "rowOutcome r = Some (parseTransactionRow r)"
  using valid_nonBlank[OF assms] assms by (simp add: rowOutcome_def structurallyValid_def)

lemma valid_amount_fails:
  assumes "structurallyValid r" "dateParses r" "amountFails r"
  shows "parseTransactionRow r = Inl (''Invalid amount: '' @ the (field r ''Bedrag''))"
  using assms mapper_bad_amount[of r] by (simp add: structurallyValid_def dateParses_def amountFails_def)

lemma valid_amount_parses:
  assumes "structurallyValid r" "dateParses r" "\<not> amountFails r"
  shows "\<exists>t. parseTransactionRow r = Inr (Some t)"
  using assms mapper_ok[of r] by (simp add: structurallyValid_def dateParses_def amountFails_def)

lemma valid_survivor:
  assumes "structurallyValid r" "dateParses r"
  shows "(survivor r = None) = amountFails r"
proof (cases "amountFails r")
  case True
  then show ?thesis
    using valid_amount_fails[OF assms True] by (simp add: survivor_def valid_rowOutcome[OF assms(1)])
next
  case False
  then show ?thesis
    using valid_amount_parses[OF assms False] by (auto simp: survivor_def valid_rowOutcome[OF assms(1)])
qed

lemma valid_rowError:
  assumes "structurallyValid r" "dateParses r"
  shows "rowError (n, r) = amountError (n, r)"
proof (cases "amountFails r")
  case True
  then show ?thesis
    using valid_amount_fails[OF assms True]
    by (simp add: rowError_def amountError_def valid_rowOutcome[OF assms(1)])
next
  case False
  then show ?thesis
    using valid_amount_parses[OF assms False]
    by (auto simp: rowError_def amountError_def valid_rowOutcome[OF assms(1)])
qed

lemma valid_survivors_length:
  assumes "list_all structurallyValid rows" "list_all dateParses rows"
  shows "length (survivors rows) + length (filter amountFails rows) = length rows"
  using assms
proof (induction rows)
  case Nil
  show ?case by (simp add: survivors_Nil)
next
  case (Cons r rows)
  then have v: "structurallyValid r" "dateParses r" by simp_all
  from Cons have ih: "length (survivors rows) + length (filter amountFails rows) = length rows" by simp
  show ?case
    using valid_survivor[OF v] ih by (cases "survivor r") (simp_all add: survivors_Cons)
qed

lemma valid_rowErrors:
  assumes "list_all structurallyValid rows" "list_all dateParses rows"
  shows "rowErrors i rows = List.map_filter amountError (enumerate (i + 1) rows)"
  using assms
proof (induction rows arbitrary: i)
  case Nil
  show ?case by (simp add: rowErrors_Nil map_filter_simps)
next
  case (Cons r rows)
  then have v: "structurallyValid r" "dateParses r" by simp_all
  from Cons have ih: "rowErrors (Suc i) rows = List.map_filter amountError (enumerate (Suc i + 1) rows)" by simp
  show ?case
    using ih by (simp add: rowErrors_Cons valid_rowError[OF v] map_filter_simps split: option.split)
qed

section \<open>The claims about the parser and the import\<close>

subsection \<open>Evaluations of the example files\<close>

lemma tenRows_length: "length tenRows = 10"
  by (simp add: tenRows_def)

lemma tenRows_valid: "list_all structurallyValid tenRows"
  by code_simp

lemma tenRows_dates: "list_all dateParses tenRows"
  by code_simp

lemma tenRows_bad: "length (filter amountFails tenRows) = 2"
  by code_simp

lemma tenRows_errors:
  "List.map_filter amountError (enumerate 1 tenRows) =
     [(3, ''Invalid amount: abc''), (7, ''Invalid amount: n/a'')]"
  by code_simp

lemma tenRows_inserted:
  "allInserted (mysqlInsert (\<lambda>t. None)) ''A'' (survivors tenRows) []"
  by code_simp

lemma exampleEnv_papa:
  "papa (exampleEnv rows) csv = Inr \<lparr>papa_errors = [], papa_data = rows\<rparr>"
  by (simp add: exampleEnv_def fixedTokenizer_def)

lemma exampleEnv_fresh: "noLogFor (md5 (exampleEnv rows) (fileBuffer fileA)) (import_logs emptyDatabase)"
  by (simp add: noLogFor_def emptyDatabase_def)

subsection \<open>Partial failure\<close>

text \<open>
  Claim C1, as amended. A file whose rows all pass the structural checks and have
  booking dates that parse, of which some but not all have an amount that does not
  parse, imported for the first time with every INSERT succeeding: with \<open>n\<close> the number
  of rows whose amount parses, the summary is total \<open>n\<close>, imported \<open>n\<close>, skipped 0 and
  errors 0, and the returned error list is empty. The rows with an unparsable amount
  appear only on the parser's console, each with its 1-based row number and the message
  \<^verbatim>\<open>Invalid amount: ...\<close>. The import log of the file is \<open>Completed\<close>. For ten rows
  with two unparsable amounts: imported 8, errors 0.
\<close>

theorem unparsable_amounts_are_not_counted:
  assumes "papa e (fileBuffer f) = Inr parsed" and "papa_errors parsed = []"
    and "list_all structurallyValid (papa_data parsed)"
    and "list_all dateParses (papa_data parsed)"
    and "length (filter amountFails (papa_data parsed)) < length (papa_data parsed)"
    and "noLogFor (md5 e (fileBuffer f)) (import_logs db)"
    and "allInserted (insertTransaction e) (md5 e (fileBuffer f)) (survivors (papa_data parsed))
           (transactions_table db)"
    and "n = length (papa_data parsed) - length (filter amountFails (papa_data parsed))"
  shows "fst (upload e now db (Some f)) =
           Http200 \<lparr>totalRecords = n, imported = n, skipped = 0, errors = 0\<rparr> []
    \<and> snd (snd (upload e now db (Some f))) = List.map_filter amountError (enumerate 1 (papa_data parsed))
    \<and> map import_status (logsFor (md5 e (fileBuffer f)) (fst (snd (upload e now db (Some f))))) = [Completed]"
proof -
  let ?rows = "papa_data parsed"
  have len: "length (survivors ?rows) = n"
    using valid_survivors_length[OF assms(3,4)] assms(8) by simp
  then have ne: "survivors ?rows \<noteq> []" using assms(5,8) by auto
  have p: "parseBelgianBankCSV (papa e) (fileBuffer f) =
      (ParseSuccess (survivors ?rows), List.map_filter amountError (enumerate 1 ?rows))"
    using parseBelgianBankCSV_eq[of "papa e" "fileBuffer f" parsed] assms(1,2) ne
      valid_rowErrors[OF assms(3,4), of 0] by simp
  have q: "persist (insertTransaction e) (md5 e (fileBuffer f)) (survivors ?rows) 0
             (startCounters, transactions_table db) =
           (startCounters\<lparr>importedCount := importedCount startCounters + length (survivors ?rows)\<rparr>,
            insertAll (insertTransaction e) (md5 e (fileBuffer f)) (survivors ?rows) (transactions_table db))"
    by (rule persist_allInserted[OF assms(7)])
  have old: "filter (\<lambda>l. file_hash l = md5 e (fileBuffer f)) (import_logs db) = []"
    using assms(6) by (simp add: noLogFor_def)
  show ?thesis
    unfolding upload_fresh[OF assms(6)] p prod.case parse_result.case q
    by (simp add: len startCounters_def logsFor_def old completedLog_def newLog_def)
qed

text \<open>The ten rows of the example: imported 8, errors 0, rows 3 and 7 on the console.\<close>

theorem unparsable_amounts_are_not_counted_witness:
  "length tenRows = 10 \<and> list_all structurallyValid tenRows \<and> list_all dateParses tenRows
   \<and> length (filter amountFails tenRows) = 2
   \<and> allInserted (insertTransaction (exampleEnv tenRows)) ''A'' (survivors tenRows) []
   \<and> fst (upload (exampleEnv tenRows) 7 emptyDatabase (Some fileA)) =
        Http200 \<lparr>totalRecords = 8, imported = 8, skipped = 0, errors = 0\<rparr> []
   \<and> snd (snd (upload (exampleEnv tenRows) 7 emptyDatabase (Some fileA))) =
        [(3, ''Invalid amount: abc''), (7, ''Invalid amount: n/a'')]
   \<and> map import_status (logsFor ''A'' (fst (snd (upload (exampleEnv tenRows) 7 emptyDatabase (Some fileA)))))
        = [Completed]"
proof -
  have h5: "length (filter amountFails (papa_data \<lparr>papa_errors = [], papa_data = tenRows\<rparr>))
              < length (papa_data \<lparr>papa_errors = [], papa_data = tenRows\<rparr>)"
    by (simp add: tenRows_bad tenRows_length)
  have h7: "allInserted (insertTransaction (exampleEnv tenRows)) (md5 (exampleEnv tenRows) (fileBuffer fileA))
              (survivors (papa_data \<lparr>papa_errors = [], papa_data = tenRows\<rparr>))
              (transactions_table emptyDatabase)"
    using tenRows_inserted by (simp add: exampleEnv_def fileA_def emptyDatabase_def)
  have h8: "(8::nat) = length (papa_data \<lparr>papa_errors = [], papa_data = tenRows\<rparr>)
              - length (filter amountFails (papa_data \<lparr>papa_errors = [], papa_data = tenRows\<rparr>))"
    by (simp add: tenRows_bad tenRows_length)
  have a: "md5 (exampleEnv tenRows) (fileBuffer fileA) = ''A''"
    by (simp add: exampleEnv_def fileA_def)
  have i: "allInserted (insertTransaction (exampleEnv tenRows)) ''A'' (survivors tenRows) []"
    using tenRows_inserted by (simp add: exampleEnv_def)
  from unparsable_amounts_are_not_counted
         [of "exampleEnv tenRows" fileA "\<lparr>papa_errors = [], papa_data = tenRows\<rparr>" emptyDatabase 8 7,
          OF exampleEnv_papa _ _ _ h5 exampleEnv_fresh h7 h8]
  have "fst (upload (exampleEnv tenRows) 7 emptyDatabase (Some fileA)) =
           Http200 \<lparr>totalRecords = 8, imported = 8, skipped = 0, errors = 0\<rparr> []
    \<and> snd (snd (upload (exampleEnv tenRows) 7 emptyDatabase (Some fileA))) =
           [(3, ''Invalid amount: abc''), (7, ''Invalid amount: n/a'')]
    \<and> map import_status (logsFor ''A'' (fst (snd (upload (exampleEnv tenRows) 7 emptyDatabase (Some fileA)))))
           = [Completed]"
    using tenRows_errors by (simp add: tenRows_valid tenRows_dates a)
  then show ?thesis
    using tenRows_length tenRows_valid tenRows_dates tenRows_bad i by blast
qed

text \<open>
  The claim as stated fails on the ten rows: the two rows with an unparsable amount are
  not counted as errors and are not in the returned error list.
\<close>

theorem unparsable_amounts_counterexample:
  "length tenRows = 10 \<and> list_all structurallyValid tenRows \<and> length (filter amountFails tenRows) = 2
   \<and> fst (upload (exampleEnv tenRows) 7 emptyDatabase (Some fileA)) =
        Http200 \<lparr>totalRecords = 8, imported = 8, skipped = 0, errors = 0\<rparr> []"
proof -
  have "fst (upload (exampleEnv tenRows) 7 emptyDatabase (Some fileA)) =
        Http200 \<lparr>totalRecords = 8, imported = 8, skipped = 0, errors = 0\<rparr> []"
    by code_simp
  then show ?thesis
    using tenRows_length tenRows_valid tenRows_bad by blast
qed

subsection \<open>The same file twice\<close>

text \<open>
  Claim C2, as amended. A file whose hash has no import log is processed: the response
  is a summary exactly when the CSV parses and a parse failure otherwise. Whatever the
  outcome, an upload of the same bytes afterwards (under any file name, with any
  tokenizer and any table behind it, so nothing is parsed and no row is processed) is
  rejected as already processed, with the time of the first import; the database and the
  console are left as they were.
\<close>

theorem second_upload_is_rejected:
  assumes "noLogFor (md5 e (fileBuffer f)) (import_logs db)"
    and "fileBuffer f' = fileBuffer f" and "md5 e' = md5 e"
  shows "upload e' now' (fst (snd (upload e now db (Some f)))) (Some f') =
           (Http409 ''File already processed'' now, fst (snd (upload e now db (Some f))), [])
    \<and> ((\<exists>sm errs. fst (upload e now db (Some f)) = Http200 sm errs) \<longleftrightarrow>
           (\<exists>txs. fst (parseBelgianBankCSV (papa e) (fileBuffer f)) = ParseSuccess txs))
    \<and> ((\<exists>msg. fst (upload e now db (Some f)) = Http400 msg) \<longleftrightarrow>
           (\<exists>msg. fst (parseBelgianBankCSV (papa e) (fileBuffer f)) = ParseFailure msg))"
proof -
  obtain l where l: "logsFor (md5 e (fileBuffer f)) (fst (snd (upload e now db (Some f)))) = [l]"
    and at: "imported_at l = now"
    using upload_fresh_log[OF assms(1), of now] by blast
  have "logsFor (md5 e' (fileBuffer f')) (fst (snd (upload e now db (Some f)))) = [l]"
    using l assms(2,3) by simp
  then have 1: "upload e' now' (fst (snd (upload e now db (Some f)))) (Some f') =
           (Http409 ''File already processed'' now, fst (snd (upload e now db (Some f))), [])"
    using upload_duplicate[of e' f' "fst (snd (upload e now db (Some f)))" l "[]" now'] at by simp
  show ?thesis
    using 1 upload_fresh_response[OF assms(1), of now] by blast
qed

theorem second_upload_is_rejected_witness:
  "noLogFor (md5 (exampleEnv fiveRows) (fileBuffer fileA)) (import_logs emptyDatabase)
   \<and> fileBuffer (fileB\<lparr>fileBuffer := ''A''\<rparr>) = fileBuffer fileA
   \<and> fst (upload (exampleEnv []) 9 (fst (snd (upload (exampleEnv fiveRows) 7 emptyDatabase (Some fileA))))
            (Some (fileB\<lparr>fileBuffer := ''A''\<rparr>)))
       = Http409 ''File already processed'' 7"
proof -
  have h2: "fileBuffer (fileB\<lparr>fileBuffer := ''A''\<rparr>) = fileBuffer fileA"
    by (simp add: fileA_def)
  have h3: "md5 (exampleEnv []) = md5 (exampleEnv fiveRows)"
    by (simp add: exampleEnv_def)
  show ?thesis
    using second_upload_is_rejected[OF exampleEnv_fresh h2 h3, of 9 7] exampleEnv_fresh h2
    by simp
qed

text \<open>
  The claim as stated fails for a file with a header only: its first import is a parse
  failure, not a successful import, and the second upload is rejected all the same.
\<close>

theorem failed_import_counterexample:
  "fst (upload (exampleEnv []) 7 emptyDatabase (Some fileA)) =
     Http400 ''No valid transactions found in CSV file. Please check the file format.''
   \<and> fst (upload (exampleEnv []) 9 (fst (snd (upload (exampleEnv []) 7 emptyDatabase (Some fileA)))) (Some fileA))
       = Http409 ''File already processed'' 7"
  by code_simp

subsection \<open>Duplicates of stored transactions\<close>

text \<open>A transaction whose INSERT fails with a duplicate-key error is counted as skipped.\<close>

lemma duplicate_is_skipped:
  assumes "ins s t h = Inl e" and "err_code e = Some ''ER_DUP_ENTRY''"
  shows "persist ins h (t # ts) i (c, s) = persist ins h ts (Suc i) (c\<lparr>skippedCount := skippedCount c + 1\<rparr>, s)"
  using assms by (simp add: persistOne_def)

text \<open>
  Claim C3. The unique key does not stop every re-import: five rows with no counterpart
  account, imported from one file and then again from a second file with other bytes,
  are imported a second time (imported 5, skipped 0), because the key column
  \<open>counterpart_account\<close> is NULL. The same rows with a counterpart account are skipped
  (imported 0, skipped 5), as the claim says.
\<close>

theorem reimport_without_counterpart_account:
  "fst (upload (exampleEnv fiveRows) 7 emptyDatabase (Some fileA)) =
     Http200 \<lparr>totalRecords = 5, imported = 5, skipped = 0, errors = 0\<rparr> []
   \<and> fst (upload (exampleEnv fiveRows) 9
            (fst (snd (upload (exampleEnv fiveRows) 7 emptyDatabase (Some fileA)))) (Some fileB)) =
     Http200 \<lparr>totalRecords = 5, imported = 5, skipped = 0, errors = 0\<rparr> []
   \<and> fst (upload (exampleEnv fiveRowsWithCounterpart) 9
            (fst (snd (upload (exampleEnv fiveRowsWithCounterpart) 7 emptyDatabase (Some fileA)))) (Some fileB)) =
     Http200 \<lparr>totalRecords = 5, imported = 0, skipped = 5, errors = 0\<rparr> []"
proof -
  have 1: "fst (upload (exampleEnv fiveRows) 7 emptyDatabase (Some fileA)) =
     Http200 \<lparr>totalRecords = 5, imported = 5, skipped = 0, errors = 0\<rparr> []"
    by code_simp
  have 2: "fst (upload (exampleEnv fiveRows) 9
            (fst (snd (upload (exampleEnv fiveRows) 7 emptyDatabase (Some fileA)))) (Some fileB)) =
     Http200 \<lparr>totalRecords = 5, imported = 5, skipped = 0, errors = 0\<rparr> []"
    by code_simp
  have 3: "fst (upload (exampleEnv fiveRowsWithCounterpart) 9
            (fst (snd (upload (exampleEnv fiveRowsWithCounterpart) 7 emptyDatabase (Some fileA)))) (Some fileB)) =
     Http200 \<lparr>totalRecords = 5, imported = 0, skipped = 5, errors = 0\<rparr> []"
    by code_simp
  show ?thesis using 1 2 3 by blast
qed

subsection \<open>Row errors in the parser\<close>

text \<open>
  Claim C6. When the tokenizer reports no error and the mapper throws on a row that
  reached it, the parser catches the error, writes the row's number (counted from 1) and
  the error's message on the console, and goes on: the rows before and after the
  malformed row are processed as if it were not there. The result is the list of the
  transactions of the surviving rows, in the order of the file (a failure when there is
  none).
\<close>

theorem row_errors_do_not_abort:
  assumes "tok csv = Inr parsed" and "papa_errors parsed = []"
    and "papa_data parsed = before @ r # after"
    and "list_ex nonBlank (map snd r)" and "looksLikeTransaction r"
    and "parseTransactionRow r = Inl msg"
  shows "parseBelgianBankCSV tok csv =
          (if survivors before @ survivors after = [] then ParseFailure noValidTransactions
           else ParseSuccess (survivors before @ survivors after),
           rowErrors 0 before @ (length before + 1, msg) # rowErrors (length before + 1) after)
    \<and> processRows (r # after) i transactions out =
          processRows after (Suc i) transactions (out @ [(i + 1, msg)])
    \<and> processRows rows 0 [] [] = (List.map_filter survivor rows, List.map_filter rowError (enumerate 1 rows))"
proof -
  have o: "rowOutcome r = Some (Inl msg)"
    using assms(4,5,6) by (simp add: rowOutcome_def)
  have s: "survivors (before @ r # after) = survivors before @ survivors after"
    by (simp add: survivors_append survivors_Cons survivor_def o)
  have e: "rowErrors 0 (before @ r # after) =
      rowErrors 0 before @ (length before + 1, msg) # rowErrors (length before + 1) after"
    by (simp add: rowErrors_append rowErrors_Cons rowError_def o)
  have 1: "parseBelgianBankCSV tok csv =
          (if survivors before @ survivors after = [] then ParseFailure noValidTransactions
           else ParseSuccess (survivors before @ survivors after),
           rowErrors 0 before @ (length before + 1, msg) # rowErrors (length before + 1) after)"
    using parseBelgianBankCSV_eq[of tok csv parsed] assms(1,2)
    unfolding assms(3) s e by simp
  have 2: "processRows (r # after) i transactions out =
          processRows after (Suc i) transactions (out @ [(i + 1, msg)])"
    using assms(4,5,6) by simp
  have 3: "processRows rows 0 [] [] = (List.map_filter survivor rows, List.map_filter rowError (enumerate 1 rows))"
    by (simp add: processRows_eq survivors_def rowErrors_def)
  show ?thesis using 1 2 3 by blast
qed

theorem row_errors_do_not_abort_witness:
  "list_ex nonBlank (map snd badDateRow) \<and> looksLikeTransaction badDateRow
   \<and> parseTransactionRow badDateRow = Inl ''Invalid booking date: 31/13/2024''
   \<and> parseBelgianBankCSV (fixedTokenizer [goodRow, badDateRow, laterRow]) '''' =
        (ParseSuccess (survivors [goodRow] @ survivors [laterRow]),
         [(2, ''Invalid booking date: 31/13/2024'')])
   \<and> length (survivors [goodRow] @ survivors [laterRow]) = 2"
proof -
  have h1: "fixedTokenizer [goodRow, badDateRow, laterRow] '''' =
              Inr \<lparr>papa_errors = [], papa_data = [goodRow, badDateRow, laterRow]\<rparr>"
    by (simp add: fixedTokenizer_def)
  have h2: "papa_errors \<lparr>papa_errors = [], papa_data = [goodRow, badDateRow, laterRow]\<rparr> = []"
    by simp
  have h3: "papa_data \<lparr>papa_errors = [], papa_data = [goodRow, badDateRow, laterRow]\<rparr> =
              [goodRow] @ badDateRow # [laterRow]"
    by simp
  have h4: "list_ex nonBlank (map snd badDateRow)" by code_simp
  have h5: "looksLikeTransaction badDateRow" by code_simp
  have h6: "parseTransactionRow badDateRow = Inl ''Invalid booking date: 31/13/2024''" by code_simp
  have e1: "rowErrors 0 [goodRow] = []" by code_simp
  have e2: "rowErrors (length [goodRow] + 1) [laterRow] = []" by code_simp
  have n: "length (survivors [goodRow] @ survivors [laterRow]) = 2" by code_simp
  then have ne: "survivors [goodRow] @ survivors [laterRow] \<noteq> []" by auto
  note r = row_errors_do_not_abort
         [where tok = "fixedTokenizer [goodRow, badDateRow, laterRow]" and csv = "[]"
            and before = "[goodRow]" and r = badDateRow and after = "[laterRow]",
          OF h1 h2 h3 h4 h5 h6, THEN conjunct1]
  have "parseBelgianBankCSV (fixedTokenizer [goodRow, badDateRow, laterRow]) '''' =
        (ParseSuccess (survivors [goodRow] @ survivors [laterRow]),
         [(2, ''Invalid booking date: 31/13/2024'')])"
    unfolding r e1 e2 using ne by simp
  then show ?thesis using h4 h5 h6 n by blast
qed

subsection \<open>Dropped rows and row errors in the mapper\<close>

text \<open>
  Claim C8, as amended. The mapper returns null exactly when the account number, the
  booking date or the amount is missing or blank. When all three are present and the
  booking date does not parse, it throws \<^verbatim>\<open>Invalid booking date: ...\<close>; when the date
  parses and the amount does not, it throws \<^verbatim>\<open>Invalid amount: ...\<close>. The parser writes
  the error on its console with the 1-based row number and leaves the row out of its
  result. The error is not part of what the parser returns to its caller: the result is
  the one of the file without the row.
\<close>

theorem mapper_drops_or_throws:
  "(parseTransactionRow r = Inr None \<longleftrightarrow>
      falsy (field r ''Rekening'') \<or> falsy (field r ''Boekingsdatum'') \<or> falsy (field r ''Bedrag''))
   \<and> (\<not> falsy (field r ''Rekening'') \<and> \<not> falsy (field r ''Boekingsdatum'') \<and> \<not> falsy (field r ''Bedrag'')
        \<and> parseDate (the (field r ''Boekingsdatum'')) = None
      \<longrightarrow> parseTransactionRow r = Inl (''Invalid booking date: '' @ the (field r ''Boekingsdatum'')))
   \<and> (\<not> falsy (field r ''Rekening'') \<and> \<not> falsy (field r ''Boekingsdatum'') \<and> \<not> falsy (field r ''Bedrag'')
        \<and> parseDate (the (field r ''Boekingsdatum'')) \<noteq> None
        \<and> parseAmount (the (field r ''Bedrag'')) = None
      \<longrightarrow> parseTransactionRow r = Inl (''Invalid amount: '' @ the (field r ''Bedrag'')))
   \<and> (list_ex nonBlank (map snd r) \<and> looksLikeTransaction r \<and> parseTransactionRow r = Inl msg
      \<longrightarrow> processRows (r # rows) i transactions out =
            processRows rows (Suc i) transactions (out @ [(i + 1, msg)])
          \<and> fst (parseBelgianBankCSV (fixedTokenizer (before @ r # after)) csv) =
            fst (parseBelgianBankCSV (fixedTokenizer (before @ after)) csv))"
proof -
  have 4: "processRows (r # rows) i transactions out =
            processRows rows (Suc i) transactions (out @ [(i + 1, msg)])
          \<and> fst (parseBelgianBankCSV (fixedTokenizer (before @ r # after)) csv) =
            fst (parseBelgianBankCSV (fixedTokenizer (before @ after)) csv)"
    if h: "list_ex nonBlank (map snd r)" "looksLikeTransaction r" "parseTransactionRow r = Inl msg"
  proof -
    have o: "rowOutcome r = Some (Inl msg)" using h by (simp add: rowOutcome_def)
    have s: "survivors (before @ r # after) = survivors (before @ after)"
      by (simp add: survivors_append survivors_Cons survivor_def o)
    have a: "parseBelgianBankCSV (fixedTokenizer rs) csv =
               (if survivors rs = [] then ParseFailure noValidTransactions else ParseSuccess (survivors rs),
                rowErrors 0 rs)" for rs
      using parseBelgianBankCSV_eq[of "fixedTokenizer rs" csv "\<lparr>papa_errors = [], papa_data = rs\<rparr>"]
      by (simp add: fixedTokenizer_def)
    show ?thesis using h by (simp add: a s)
  qed
  show ?thesis
    using mapper_null_iff[of r] mapper_bad_date[of r] mapper_bad_amount[of r] 4 by blast
qed

theorem mapper_drops_or_throws_witness:
  "\<not> falsy (field badDateRow ''Rekening'') \<and> \<not> falsy (field badDateRow ''Boekingsdatum'')
   \<and> \<not> falsy (field badDateRow ''Bedrag'') \<and> parseDate (the (field badDateRow ''Boekingsdatum'')) = None
   \<and> parseTransactionRow badDateRow = Inl ''Invalid booking date: 31/13/2024''
   \<and> parseDate (the (field badAmountRow ''Boekingsdatum'')) = Some ''2024-03-03''
   \<and> parseAmount (the (field badAmountRow ''Bedrag'')) = None
   \<and> parseTransactionRow badAmountRow = Inl ''Invalid amount: abc''
   \<and> list_ex nonBlank (map snd badDateRow) \<and> looksLikeTransaction badDateRow
   \<and> processRows [badDateRow] 4 [] [] = ([], [(5, ''Invalid booking date: 31/13/2024'')])"
proof -
  have a: "\<not> falsy (field badDateRow ''Rekening'')" "\<not> falsy (field badDateRow ''Boekingsdatum'')"
    "\<not> falsy (field badDateRow ''Bedrag'')" by code_simp+
  have b: "parseDate (the (field badDateRow ''Boekingsdatum'')) = None" by code_simp
  have c: "\<not> falsy (field badAmountRow ''Rekening'')" "\<not> falsy (field badAmountRow ''Boekingsdatum'')"
    "\<not> falsy (field badAmountRow ''Bedrag'')" by code_simp+
  have d: "parseDate (the (field badAmountRow ''Boekingsdatum'')) = Some ''2024-03-03''" by code_simp
  have e: "parseAmount (the (field badAmountRow ''Bedrag'')) = None" by code_simp
  have f: "the (field badDateRow ''Boekingsdatum'') = ''31/13/2024''"
    "the (field badAmountRow ''Bedrag'') = ''abc''" by code_simp+
  have g: "list_ex nonBlank (map snd badDateRow)" "looksLikeTransaction badDateRow" by code_simp+
  have 1: "parseTransactionRow badDateRow = Inl ''Invalid booking date: 31/13/2024''"
    using mapper_drops_or_throws[of badDateRow] a b f by simp
  have 2: "parseTransactionRow badAmountRow = Inl ''Invalid amount: abc''"
    using mapper_drops_or_throws[of badAmountRow] c d e f by simp
  have 3: "processRows [badDateRow] 4 [] [] = ([], [(5, ''Invalid booking date: 31/13/2024'')])"
    using mapper_drops_or_throws[of badDateRow "''Invalid booking date: 31/13/2024''" "[]" 4 "[]" "[]"] g 1
    by simp
  show ?thesis using a b d e g 1 2 3 by blast
qed

text \<open>
  The claim as stated fails: for a file with a row whose booking date does not parse,
  the parser and the import return what they return for the file without that row, so
  the caller is told neither the row number nor the message.
\<close>

theorem row_error_not_reported_counterexample:
  "parseTransactionRow badDateRow = Inl ''Invalid booking date: 31/13/2024''
   \<and> fst (parseBelgianBankCSV (fixedTokenizer [goodRow, badDateRow]) '''') =
     fst (parseBelgianBankCSV (fixedTokenizer [goodRow]) '''')
   \<and> fst (upload (exampleEnv [goodRow, badDateRow]) 7 emptyDatabase (Some fileA)) =
     Http200 \<lparr>totalRecords = 1, imported = 1, skipped = 0, errors = 0\<rparr> []
   \<and> fst (upload (exampleEnv [goodRow]) 7 emptyDatabase (Some fileA)) =
     Http200 \<lparr>totalRecords = 1, imported = 1, skipped = 0, errors = 0\<rparr> []"
proof -
  have 1: "parseTransactionRow badDateRow = Inl ''Invalid booking date: 31/13/2024''" by code_simp
  have 2: "fst (parseBelgianBankCSV (fixedTokenizer [goodRow, badDateRow]) '''') =
     fst (parseBelgianBankCSV (fixedTokenizer [goodRow]) '''')" by code_simp
  have 3: "fst (upload (exampleEnv [goodRow, badDateRow]) 7 emptyDatabase (Some fileA)) =
     Http200 \<lparr>totalRecords = 1, imported = 1, skipped = 0, errors = 0\<rparr> []" by code_simp
  have 4: "fst (upload (exampleEnv [goodRow]) 7 emptyDatabase (Some fileA)) =
     Http200 \<lparr>totalRecords = 1, imported = 1, skipped = 0, errors = 0\<rparr> []" by code_simp
  show ?thesis using 1 2 3 4 by blast
qed

subsection \<open>Files without a transaction\<close>

text \<open>
  Claim C7. When the tokenizer reports no error and no transaction survives (the file
  has a header only, or no row has an account number that starts with \<^verbatim>\<open>BE\<close>, or every
  row is dropped or in error), the parse fails with the message
  \<^verbatim>\<open>No valid transactions found in CSV file. Please check the file format.\<close>, whatever
  the number of row errors. The import of such a file, when the file has no import log
  yet, answers with that message, marks the file's import log \<open>Failed\<close> with the message,
  and leaves the transactions table as it was.
\<close>

theorem no_valid_transactions_fails_import:
  assumes "papa e (fileBuffer f) = Inr parsed" and "papa_errors parsed = []"
    and "papa_data parsed = [] \<or> list_all (\<lambda>r. \<not> looksLikeTransaction r) (papa_data parsed)
         \<or> survivors (papa_data parsed) = []"
    and "noLogFor (md5 e (fileBuffer f)) (import_logs db)"
  shows "fst (parseBelgianBankCSV (papa e) (fileBuffer f)) = ParseFailure noValidTransactions
    \<and> fst (upload e now db (Some f)) = Http400 noValidTransactions
    \<and> transactions_table (fst (snd (upload e now db (Some f)))) = transactions_table db
    \<and> map (\<lambda>l. (import_status l, error_message l)) (logsFor (md5 e (fileBuffer f)) (fst (snd (upload e now db (Some f)))))
        = [(Failed, Some (ParseError noValidTransactions))]"
proof -
  have z: "survivors (papa_data parsed) = []"
    using assms(3) survivors_none[of "papa_data parsed"] by (auto simp: survivors_Nil)
  have p: "parseBelgianBankCSV (papa e) (fileBuffer f) =
      (ParseFailure noValidTransactions, rowErrors 0 (papa_data parsed))"
    using parseBelgianBankCSV_eq[of "papa e" "fileBuffer f" parsed] assms(1,2) z by simp
  have old: "filter (\<lambda>l. file_hash l = md5 e (fileBuffer f)) (import_logs db) = []"
    using assms(4) by (simp add: noLogFor_def)
  show ?thesis
    unfolding upload_fresh[OF assms(4)] p
    by (simp add: logsFor_def old failedLog_def newLog_def)
qed

theorem no_valid_transactions_fails_import_witness:
  "list_all (\<lambda>r. \<not> looksLikeTransaction r) summaryRows
   \<and> noLogFor (md5 (exampleEnv summaryRows) (fileBuffer fileA)) (import_logs emptyDatabase)
   \<and> fst (upload (exampleEnv summaryRows) 7 emptyDatabase (Some fileA)) =
       Http400 ''No valid transactions found in CSV file. Please check the file format.''
   \<and> transactions_table (fst (snd (upload (exampleEnv summaryRows) 7 emptyDatabase (Some fileA)))) = []
   \<and> map (\<lambda>l. (import_status l, error_message l))
          (logsFor ''A'' (fst (snd (upload (exampleEnv summaryRows) 7 emptyDatabase (Some fileA)))))
       = [(Failed, Some (ParseError ''No valid transactions found in CSV file. Please check the file format.''))]"
proof -
  have h: "list_all (\<lambda>r. \<not> looksLikeTransaction r) summaryRows" by code_simp
  have h2: "papa_errors \<lparr>papa_errors = [], papa_data = summaryRows\<rparr> = []" by simp
  have h3: "papa_data \<lparr>papa_errors = [], papa_data = summaryRows\<rparr> = []
            \<or> list_all (\<lambda>r. \<not> looksLikeTransaction r) (papa_data \<lparr>papa_errors = [], papa_data = summaryRows\<rparr>)
            \<or> survivors (papa_data \<lparr>papa_errors = [], papa_data = summaryRows\<rparr>) = []"
    using h by simp
  have a: "md5 (exampleEnv summaryRows) (fileBuffer fileA) = ''A''"
    by (simp add: exampleEnv_def fileA_def)
  have t: "transactions_table emptyDatabase = []"
    by (simp add: emptyDatabase_def)
  from no_valid_transactions_fails_import[OF exampleEnv_papa h2 h3 exampleEnv_fresh, of 7]
  have "fst (upload (exampleEnv summaryRows) 7 emptyDatabase (Some fileA)) =
       Http400 ''No valid transactions found in CSV file. Please check the file format.''
   \<and> transactions_table (fst (snd (upload (exampleEnv summaryRows) 7 emptyDatabase (Some fileA)))) = []
   \<and> map (\<lambda>l. (import_status l, error_message l))
          (logsFor ''A'' (fst (snd (upload (exampleEnv summaryRows) 7 emptyDatabase (Some fileA)))))
       = [(Failed, Some (ParseError ''No valid transactions found in CSV file. Please check the file format.''))]"
    by (simp add: a t noValidTransactions_def)
  then show ?thesis
    using h exampleEnv_fresh by blast
qed

subsection \<open>The counters\<close>

text \<open>
  Claim C9. Whenever the import answers with a summary, the file was parsed into a list
  of transactions, \<open>totalRecords\<close> is the length of that list, and imported, skipped and
  errors add up to it: each pass of the loop adds one to exactly one of the three
  counters.
\<close>

theorem counters_partition_parsed_transactions:
  assumes "fst (upload e now db req) = Http200 sm errs"
  shows "imported sm + skipped sm + errors sm = totalRecords sm
    \<and> (\<exists>f txs. req = Some f
          \<and> fst (parseBelgianBankCSV (papa e) (fileBuffer f)) = ParseSuccess txs
          \<and> totalRecords sm = length txs)
    \<and> (fst (persistOne ins h i t (c, s)) = c\<lparr>importedCount := importedCount c + 1\<rparr> \<or>
        fst (persistOne ins h i t (c, s)) = c\<lparr>skippedCount := skippedCount c + 1\<rparr> \<or>
        (\<exists>msg. fst (persistOne ins h i t (c, s)) =
           c\<lparr>errorCount := errorCount c + 1, errorList := errorList c @ [(i + 1, msg)]\<rparr>))"
proof -
  obtain f where f: "req = Some f"
    using assms by (cases req) (simp_all add: upload_def)
  have fresh: "noLogFor (md5 e (fileBuffer f)) (import_logs db)"
  proof (rule ccontr)
    assume "\<not> noLogFor (md5 e (fileBuffer f)) (import_logs db)"
    then have "fst (upload e now db (Some f)) =
        Http409 ''File already processed''
          (imported_at (hd (filter (\<lambda>l. file_hash l = md5 e (fileBuffer f)) (import_logs db))))"
      by (simp add: upload_def noLogFor_def Let_def)
    then show False using assms f by simp
  qed
  obtain res out where p: "parseBelgianBankCSV (papa e) (fileBuffer f) = (res, out)"
    by (cases "parseBelgianBankCSV (papa e) (fileBuffer f)")
  obtain txs where txs: "res = ParseSuccess txs"
    using assms f upload_fresh[OF fresh, of now] p by (cases res) simp_all
  obtain c' s' where c': "persist (insertTransaction e) (md5 e (fileBuffer f)) txs 0
      (startCounters, transactions_table db) = (c', s')"
    by (cases "persist (insertTransaction e) (md5 e (fileBuffer f)) txs 0 (startCounters, transactions_table db)")
  have sm: "sm = \<lparr>totalRecords = length txs, imported = importedCount c',
                   skipped = skippedCount c', errors = errorCount c'\<rparr>"
    using assms f upload_fresh[OF fresh, of now] p txs c' by simp
  have "importedCount c' + skippedCount c' + errorCount c' = length txs"
    using persist_sum[of "insertTransaction e" "md5 e (fileBuffer f)" txs 0 "(startCounters, transactions_table db)"]
    unfolding c' by (simp add: startCounters_def)
  then have 1: "imported sm + skipped sm + errors sm = totalRecords sm"
    by (simp add: sm)
  have 2: "\<exists>f txs. req = Some f
          \<and> fst (parseBelgianBankCSV (papa e) (fileBuffer f)) = ParseSuccess txs
          \<and> totalRecords sm = length txs"
    using f p txs sm by simp
  show ?thesis
    using 1 2 persistOne_step[of ins h i t c s] by blast
qed

theorem counters_partition_parsed_transactions_witness:
  "fst (upload refusingEnv 7 preloadedDatabase (Some fileA)) =
     Http200 \<lparr>totalRecords = 5, imported = 2, skipped = 2, errors = 1\<rparr>
       [(4, ''Out of range value for column amount'')]
   \<and> imported \<lparr>totalRecords = 5, imported = 2, skipped = 2, errors = 1\<rparr>
       + skipped \<lparr>totalRecords = 5, imported = 2, skipped = 2, errors = 1\<rparr>
       + errors \<lparr>totalRecords = 5, imported = 2, skipped = 2, errors = 1\<rparr>
     = totalRecords \<lparr>totalRecords = 5, imported = 2, skipped = 2, errors = 1\<rparr>"
proof -
  have h: "fst (upload refusingEnv 7 preloadedDatabase (Some fileA)) =
     Http200 \<lparr>totalRecords = 5, imported = 2, skipped = 2, errors = 1\<rparr>
       [(4, ''Out of range value for column amount'')]"
    by code_simp
  show ?thesis
    using h counters_partition_parsed_transactions[OF h, THEN conjunct1] by (rule conjI)
qed

end
